theory Spec2Isabelle
  imports Main
begin

section \<open>PurgeCOSPathCache: configuration, validation and the purge run\<close>

text \<open>
  The program (\<^verbatim>\<open>src/main.go\<close>) reads a YAML configuration, validates four
  fields, builds one purge request and sends it through the CDN client of the cloud SDK.
  The file system, the YAML decoder, the command-line parser and the SDK are outside
  the program: they are the fields of an environment record, and every call the program
  makes to the operating system or to the SDK is appended to a log, in program order.
\<close>

subsection \<open>Data model\<close>

text \<open>The two anonymous structs of \<^verbatim>\<open>Config\<close>, with the Go field names.\<close>

record TencentCloud =
  SecretID :: string
  SecretKey :: string
  Region :: string

record PurgeConfig =
  Paths :: "string list"
  FlushType :: string
  UrlEncode :: bool
  Area :: string

record Config =
  TencentCloud :: TencentCloud
  PurgeConfig :: PurgeConfig

text \<open>
  Go error values, as far as the program can tell them apart: the text of the
  \<^verbatim>\<open>Error()\<close> method (the selector \<open>Error\<close>, printed by \<^verbatim>\<open>%v\<close> and
  \<^verbatim>\<open>%s\<close>), whether \<^verbatim>\<open>os.IsNotExist\<close> holds, and whether a
  \<^verbatim>\<open>*TencentCloudSDKError\<close> stands in the \<^verbatim>\<open>Unwrap\<close> chain.
  \<open>ErrorString\<close> is what \<^verbatim>\<open>errors.New\<close> and \<^verbatim>\<open>fmt.Errorf\<close> (without
  \<^verbatim>\<open>%w\<close>) build; \<open>ErrNotExist\<close> is an operating-system error that reports a
  missing file; the SDK error carries its three fields and the text the SDK renders
  for it; \<open>WrapError\<close> is any error that wraps another one.
\<close>

datatype go_error =
    ErrorString (Error: string)
  | ErrNotExist (Error: string)
  | TencentCloudSDKError (Code: string) (Message: string) (RequestId: string) (Error: string)
  | WrapError (Error: string) (Unwrap: go_error)

text \<open>\<^verbatim>\<open>os.IsNotExist(err)\<close>: false on \<^verbatim>\<open>nil\<close>; it does not follow \<^verbatim>\<open>Unwrap\<close>.\<close>

fun os_IsNotExist :: "go_error option \<Rightarrow> bool" where
  "os_IsNotExist (Some (ErrNotExist m)) = True"
| "os_IsNotExist _ = False"

text \<open>
  \<^verbatim>\<open>errors.As(err, &tencentCloudSDKError)\<close>: whether some error of the chain of
  \<open>err\<close> is a \<^verbatim>\<open>*TencentCloudSDKError\<close>; false on \<^verbatim>\<open>nil\<close>.
\<close>

fun chain_has_sdk_error :: "go_error \<Rightarrow> bool" where
  "chain_has_sdk_error (TencentCloudSDKError c m r t) = True"
| "chain_has_sdk_error (WrapError m e) = chain_has_sdk_error e"
| "chain_has_sdk_error (ErrorString m) = False"
| "chain_has_sdk_error (ErrNotExist m) = False"

fun errors_As_TencentCloudSDKError :: "go_error option \<Rightarrow> bool" where
  "errors_As_TencentCloudSDKError None = False"
| "errors_As_TencentCloudSDKError (Some e) = chain_has_sdk_error e"

subsection \<open>validateConfig\<close>

text \<open>
  \<^verbatim>\<open>validateConfig\<close> (lines 55-69): four checks in the order of the source, each
  returning at once; \<open>None\<close> is Go's \<^verbatim>\<open>nil\<close> error. \<^verbatim>\<open>len(Paths) == 0\<close> holds
  of the nil slice and of the empty one: both are the list \<open>[]\<close>.
\<close>

definition validateConfig :: "Config \<Rightarrow> go_error option" where
  "validateConfig config =
     (if SecretID (TencentCloud config) = [] then
        Some (ErrorString ''secret_id is required in configuration'')
      else if SecretKey (TencentCloud config) = [] then
        Some (ErrorString ''secret_key is required in configuration'')
      else if length (Paths (PurgeConfig config)) = 0 then
        Some (ErrorString ''at least one path is required in purge_config.paths'')
      else if FlushType (PurgeConfig config) = [] then
        Some (ErrorString ''flush_type is required in purge_config'')
      else None)"

text \<open>
  The validator as the specification words it (section 4.2): four rules, listed in
  order; validation fails on the first rule of the list that is violated and reports
  that rule's reason, and succeeds when none is.
\<close>

datatype rule = IdentifierPresent | SecretPresent | PathsPresent | FlushTypePresent

fun violated :: "Config \<Rightarrow> rule \<Rightarrow> bool" where
  "violated c IdentifierPresent = (SecretID (TencentCloud c) = [])"
| "violated c SecretPresent = (SecretKey (TencentCloud c) = [])"
| "violated c PathsPresent = (Paths (PurgeConfig c) = [])"
| "violated c FlushTypePresent = (FlushType (PurgeConfig c) = [])"

fun reason :: "rule \<Rightarrow> string" where
  "reason IdentifierPresent = ''secret_id is required in configuration''"
| "reason SecretPresent = ''secret_key is required in configuration''"
| "reason PathsPresent = ''at least one path is required in purge_config.paths''"
| "reason FlushTypePresent = ''flush_type is required in purge_config''"

definition listed_rules :: "rule list" where
  "listed_rules = [IdentifierPresent, SecretPresent, PathsPresent, FlushTypePresent]"

definition spec_validate :: "Config \<Rightarrow> go_error option" where
  "spec_validate c =
     map_option (\<lambda>r. ErrorString (reason r)) (List.find (violated c) listed_rules)"

text \<open>A configuration with all four required fields present, used in the examples.\<close>

definition example_config :: Config where
  "example_config =
     \<lparr>TencentCloud = \<lparr>SecretID = ''AKID'', SecretKey = ''KEY'', Region = ''ap-guangzhou''\<rparr>,
      PurgeConfig = \<lparr>Paths = [''http://example.com/a.js''], FlushType = ''delete'',
                     UrlEncode = False, Area = ''''\<rparr>\<rparr>"

subsection \<open>The environment of the program\<close>

text \<open>
  The SDK's types, as far as the program touches them. \<^verbatim>\<open>common.NewCredential\<close>
  stores the two strings it is given; of the client profile the program sets only
  \<^verbatim>\<open>HttpProfile.Endpoint\<close>; the request's fields are pointers, \<open>None\<close> being
  \<^verbatim>\<open>nil\<close>, and \<^verbatim>\<open>Paths\<close> is a slice of string pointers.
\<close>

record Credential =
  cred_SecretId :: string
  cred_SecretKey :: string

record ClientProfile =
  HttpProfile_Endpoint :: string

record PurgePathCacheRequest =
  req_Paths :: "string option list"
  req_FlushType :: "string option"
  req_UrlEncode :: "bool option"
  req_Area :: "string option"

text \<open>A flag registered with the \<^verbatim>\<open>flag\<close> package: its name, default value and usage.\<close>

record Flag =
  Name :: string
  DefValue :: string
  Usage :: string

text \<open>
  The calls the program makes to the operating system and to the SDK, logged in program
  order. \<open>Call_PurgePathCache\<close> is the one network operation.
\<close>

datatype 'c call =
    Call_os_Stat string
  | Call_os_ReadFile string
  | Call_cdn_NewClient Credential string ClientProfile
  | Call_PurgePathCache 'c PurgePathCacheRequest

text \<open>
  What lies outside \<^verbatim>\<open>main.go\<close>. Each field is the result of the library call of
  that name on its arguments; a Go call returning \<^verbatim>\<open>(value, err)\<close> returns a pair
  whose second component is \<open>None\<close> for \<^verbatim>\<open>nil\<close>.
  \<^item> \<open>flag_Parse formal args\<close>: \<^verbatim>\<open>flag.Parse()\<close> on the registered flags and the
    command line. The default flag set has the \<^verbatim>\<open>ExitOnError\<close> policy, so the call
    either ends the process itself (\<open>Inl status\<close>) or returns with the values of the
    flags that were given (\<open>Inr actual\<close>).
  \<^item> \<open>yaml_Unmarshal data config\<close>: the contents of \<open>config\<close> after decoding
    \<open>data\<close> into it, and the decoder's error.
  \<^item> \<open>'c\<close> is the SDK's client type and \<open>'r\<close> its response type.
\<close>

record ('c, 'r) env =
  flag_Parse :: "Flag list \<Rightarrow> string list \<Rightarrow> nat + (string \<Rightarrow> string option)"
  os_Stat :: "string \<Rightarrow> go_error option"
  os_ReadFile :: "string \<Rightarrow> string \<times> go_error option"
  yaml_Unmarshal :: "string \<Rightarrow> Config \<Rightarrow> Config \<times> go_error option"
  cdn_NewClient :: "Credential \<Rightarrow> string \<Rightarrow> ClientProfile \<Rightarrow> 'c \<times> go_error option"
  client_PurgePathCache :: "'c \<Rightarrow> PurgePathCacheRequest \<Rightarrow> 'r \<times> go_error option"
  ToJsonString :: "'r \<Rightarrow> string"

text \<open>How the program ends: its exit status, what it printed, and the calls it made.\<close>

record 'c outcome =
  exit_status :: nat
  stdout :: string
  calls :: "'c call list"

subsection \<open>Formatting\<close>

definition newline :: string where
  "newline = [CHR 0x0A]"

text \<open>The verbs \<^verbatim>\<open>%v\<close> and \<^verbatim>\<open>%s\<close> of \<^verbatim>\<open>fmt\<close> applied to an error value.\<close>

fun verb_v :: "go_error option \<Rightarrow> string" where
  "verb_v (Some e) = Error e"
| "verb_v None = ''<nil>''"

fun verb_s :: "go_error option \<Rightarrow> string" where
  "verb_s (Some e) = Error e"
| "verb_s None = ''%!s(<nil>)''"

subsection \<open>loadConfig\<close>

text \<open>The zero value of \<^verbatim>\<open>Config\<close> (\<^verbatim>\<open>var config Config\<close>).\<close>

definition zero_Config :: Config where
  "zero_Config =
     \<lparr>TencentCloud = \<lparr>SecretID = [], SecretKey = [], Region = []\<rparr>,
      PurgeConfig = \<lparr>Paths = [], FlushType = [], UrlEncode = False, Area = []\<rparr>\<rparr>"

text \<open>
  \<^verbatim>\<open>loadConfig\<close> (lines 32-52) returns the error (\<open>Inl\<close>) or the configuration
  (\<open>Inr\<close>), together with the calls it made. Only \<^verbatim>\<open>os.IsNotExist\<close> is asked of
  the result of \<^verbatim>\<open>os.Stat\<close>: after any other error of it the file is read all the same.
\<close>

definition loadConfig :: "('c, 'r) env \<Rightarrow> string \<Rightarrow> (go_error + Config) \<times> 'c call list" where
  "loadConfig env configPath =
     (if os_IsNotExist (os_Stat env configPath) then
        (Inl (ErrorString (''config file does not exist: '' @ configPath)),
         [Call_os_Stat configPath])
      else
        (let (data, err) = os_ReadFile env configPath;
             log = [Call_os_Stat configPath, Call_os_ReadFile configPath]
         in if err \<noteq> None then
              (Inl (ErrorString (''failed to read config file: '' @ verb_v err)), log)
            else
              (let (config, err) = yaml_Unmarshal env data zero_Config
               in if err \<noteq> None then
                    (Inl (ErrorString (''failed to parse YAML config: '' @ verb_v err)), log)
                  else (Inr config, log))))"

subsection \<open>main\<close>

text \<open>
  The one flag the program registers (line 74). \<^verbatim>\<open>flag.StringVar\<close> sets the
  variable \<^verbatim>\<open>configPath\<close> to the default value, and \<^verbatim>\<open>flag.Parse\<close> overwrites
  it when the flag is given: \<open>configPath actual\<close> is its value after parsing.
\<close>

definition flag_c :: Flag where
  "flag_c = \<lparr>Name = ''c'', DefValue = ''config.yaml'', Usage = ''Path to the configuration file''\<rparr>"

definition CommandLine :: "Flag list" where
  "CommandLine = [flag_c]"

definition configPath :: "(string \<Rightarrow> string option) \<Rightarrow> string" where
  "configPath actual = (case actual (Name flag_c) of Some v \<Rightarrow> v | None \<Rightarrow> DefValue flag_c)"

text \<open>Lines 93-96 and 99-100: the credential and the client profile.\<close>

definition NewCredential :: "string \<Rightarrow> string \<Rightarrow> Credential" where
  "NewCredential secretId secretKey = \<lparr>cred_SecretId = secretId, cred_SecretKey = secretKey\<rparr>"

definition clientProfile :: ClientProfile where
  "clientProfile = \<lparr>HttpProfile_Endpoint = ''cdn.tencentcloudapi.com''\<rparr>"

text \<open>
  Lines 111-122: the request. \<^verbatim>\<open>cdn.NewPurgePathCacheRequest()\<close> leaves the four
  fields \<^verbatim>\<open>nil\<close>; \<^verbatim>\<open>common.StringPtrs\<close> takes the address of a copy of each
  string, in order.
\<close>

definition NewPurgePathCacheRequest :: PurgePathCacheRequest where
  "NewPurgePathCacheRequest =
     \<lparr>req_Paths = [], req_FlushType = None, req_UrlEncode = None, req_Area = None\<rparr>"

definition StringPtrs :: "string list \<Rightarrow> string option list" where
  "StringPtrs vals = map Some vals"

definition buildRequest :: "Config \<Rightarrow> PurgePathCacheRequest" where
  "buildRequest config =
     (let request = NewPurgePathCacheRequest;
          request = request\<lparr>req_Paths := StringPtrs (Paths (PurgeConfig config))\<rparr>;
          request = request\<lparr>req_FlushType := Some (FlushType (PurgeConfig config))\<rparr>;
          request = request\<lparr>req_UrlEncode := Some (UrlEncode (PurgeConfig config))\<rparr>
      in if Area (PurgeConfig config) \<noteq> [] then
           request\<lparr>req_Area := Some (Area (PurgeConfig config))\<rparr>
         else request)"

text \<open>
  Lines 90-141, once the configuration is loaded and valid: build the client, send the
  request, print the result. \<open>log\<close> holds the calls made so far.
\<close>

definition purge :: "('c, 'r) env \<Rightarrow> Config \<Rightarrow> 'c call list \<Rightarrow> 'c outcome" where
  "purge env config log =
     (let credential =
            NewCredential (SecretID (TencentCloud config)) (SecretKey (TencentCloud config));
          cpf = clientProfile;
          (client, err) = cdn_NewClient env credential (Region (TencentCloud config)) cpf;
          log = log @ [Call_cdn_NewClient credential (Region (TencentCloud config)) cpf]
      in if err \<noteq> None then
           \<lparr>exit_status = 1,
            stdout = ''Error creating CDN client: '' @ verb_v err @ newline,
            calls = log\<rparr>
         else
           (let request = buildRequest config;
                (response, err) = client_PurgePathCache env client request;
                log = log @ [Call_PurgePathCache client request]
            in if errors_As_TencentCloudSDKError err then
                 \<lparr>exit_status = 1,
                  stdout = ''API error returned: '' @ verb_s err @ newline,
                  calls = log\<rparr>
               else if err \<noteq> None then
                 \<lparr>exit_status = 1,
                  stdout = ''Unexpected error: '' @ verb_v err @ newline,
                  calls = log\<rparr>
               else
                 \<lparr>exit_status = 0,
                  stdout = ''Purge operation completed successfully: '' @
                           ToJsonString env response @ newline,
                  calls = log\<rparr>))"

text \<open>
  \<^verbatim>\<open>main\<close> (lines 71-142) on the command line \<open>args\<close> (\<^verbatim>\<open>os.Args[1:]\<close>).
  Every \<^verbatim>\<open>os.Exit\<close> of the source has the argument 1; returning from \<^verbatim>\<open>main\<close>
  is exit status 0; a process that \<^verbatim>\<open>flag.Parse\<close> ends has the status the flag
  package chose.
\<close>

definition main :: "('c, 'r) env \<Rightarrow> string list \<Rightarrow> 'c outcome" where
  "main env args =
     (case flag_Parse env CommandLine args of
        Inl status \<Rightarrow> \<lparr>exit_status = status, stdout = [], calls = []\<rparr>
      | Inr actual \<Rightarrow>
          (case loadConfig env (configPath actual) of
             (Inl err, log) \<Rightarrow>
               \<lparr>exit_status = 1,
                stdout = ''Error loading configuration: '' @ Error err @ newline,
                calls = log\<rparr>
           | (Inr config, log) \<Rightarrow>
               (case validateConfig config of
                  Some err \<Rightarrow>
                    \<lparr>exit_status = 1,
                     stdout = ''Configuration validation failed: '' @ Error err @ newline,
                     calls = log\<rparr>
                | None \<Rightarrow> purge env config log)))"

text \<open>
  The whole flow succeeds: the command line is parsed, the configuration is loaded and
  valid, the client is built and the purge call returns no error.
\<close>

definition flow_succeeds :: "('c, 'r) env \<Rightarrow> string list \<Rightarrow> bool" where
  "flow_succeeds env args =
     (case flag_Parse env CommandLine args of
        Inl status \<Rightarrow> False
      | Inr actual \<Rightarrow>
          (case fst (loadConfig env (configPath actual)) of
             Inl err \<Rightarrow> False
           | Inr config \<Rightarrow>
               validateConfig config = None \<and>
               (case cdn_NewClient env
                       (NewCredential (SecretID (TencentCloud config))
                          (SecretKey (TencentCloud config)))
                       (Region (TencentCloud config)) clientProfile of
                  (client, err) \<Rightarrow>
                    err = None \<and>
                    snd (client_PurgePathCache env client (buildRequest config)) = None)))"

text \<open>The path of a file-system call, and the region of a client construction.\<close>

fun os_path :: "'c call \<Rightarrow> string option" where
  "os_path (Call_os_Stat p) = Some p"
| "os_path (Call_os_ReadFile p) = Some p"
| "os_path (Call_cdn_NewClient credential region cpf) = None"
| "os_path (Call_PurgePathCache client request) = None"

fun client_region :: "'c call \<Rightarrow> string option" where
  "client_region (Call_cdn_NewClient credential region cpf) = Some region"
| "client_region (Call_os_Stat p) = None"
| "client_region (Call_os_ReadFile p) = None"
| "client_region (Call_PurgePathCache client request) = None"

text \<open>The network operations of a log.\<close>

fun is_network_call :: "'c call \<Rightarrow> bool" where
  "is_network_call (Call_PurgePathCache client request) = True"
| "is_network_call (Call_os_Stat p) = False"
| "is_network_call (Call_os_ReadFile p) = False"
| "is_network_call (Call_cdn_NewClient credential region cpf) = False"

definition network_calls :: "'c call list \<Rightarrow> 'c call list" where
  "network_calls log = filter is_network_call log"

subsection \<open>An environment for the examples\<close>

text \<open>
  The examples run the program in a small simulated world. Its command-line parser
  follows the \<^verbatim>\<open>flag\<close> package of the Go standard library for string-valued flags
  under the \<^verbatim>\<open>ExitOnError\<close> policy: parsing stops at the first argument that is not
  a flag and at \<^verbatim>\<open>--\<close>; a flag is written with one or two dashes, its value after
  \<^verbatim>\<open>=\<close> or as the next argument; an undefined flag and a flag without its value
  end the process with status 2, and \<^verbatim>\<open>-h\<close> or \<^verbatim>\<open>-help\<close> with status 0.
\<close>

definition split_flag :: "string \<Rightarrow> string \<times> string option" where
  "split_flag name =
     (case name of
        [] \<Rightarrow> ([], None)
      | ch # cs \<Rightarrow>
          (if CHR ''='' \<in> set cs then
             (ch # takeWhile (\<lambda>x. x \<noteq> CHR ''='') cs,
              Some (drop 1 (dropWhile (\<lambda>x. x \<noteq> CHR ''='') cs)))
           else (name, None)))"

fun go_flag_Parse_from ::
  "(string \<Rightarrow> string option) \<Rightarrow> Flag list \<Rightarrow> string list \<Rightarrow> nat + (string \<Rightarrow> string option)"
where
  "go_flag_Parse_from actual formal [] = Inr actual"
| "go_flag_Parse_from actual formal (s # rest) =
     (case s of
        c0 # c1 # cs \<Rightarrow>
          (if c0 \<noteq> CHR ''-'' then Inr actual
           else if c1 = CHR ''-'' \<and> cs = [] then Inr actual
           else
             (let name = (if c1 = CHR ''-'' then cs else c1 # cs)
              in case name of
                   [] \<Rightarrow> Inl 2
                 | n0 # ns \<Rightarrow>
                     (if n0 = CHR ''-'' \<or> n0 = CHR ''='' then Inl 2
                      else
                        (case split_flag name of
                           (name, value) \<Rightarrow>
                             (if name \<notin> set (map Name formal) then
                                (if name = ''help'' \<or> name = ''h'' then Inl 0 else Inl 2)
                              else
                                (case value of
                                   Some v \<Rightarrow> go_flag_Parse_from (actual(name \<mapsto> v)) formal rest
                                 | None \<Rightarrow>
                                     (case rest of
                                        [] \<Rightarrow> Inl 2
                                      | v # rest' \<Rightarrow>
                                          go_flag_Parse_from (actual(name \<mapsto> v)) formal rest')))))))
      | _ \<Rightarrow> Inr actual)"

definition go_flag_Parse :: "Flag list \<Rightarrow> string list \<Rightarrow> nat + (string \<Rightarrow> string option)" where
  "go_flag_Parse formal args = go_flag_Parse_from (\<lambda>name. None) formal args"

text \<open>
  The simulated world: the only file is \<^verbatim>\<open>config.yaml\<close>, its text decodes to
  \<open>config\<close>, the SDK builds a client (the triple it was built from) and the purge call
  returns \<open>result\<close>; a response is its own JSON text.
\<close>

definition example_env ::
  "Config \<Rightarrow> string \<times> go_error option \<Rightarrow> (Credential \<times> string \<times> ClientProfile, string) env"
where
  "example_env config result =
     \<lparr>flag_Parse = go_flag_Parse,
      os_Stat = (\<lambda>p. if p = ''config.yaml'' then None
                     else Some (ErrNotExist (''stat '' @ p @ '': no such file or directory''))),
      os_ReadFile = (\<lambda>p. if p = ''config.yaml'' then (''tencent_cloud: ...'', None)
                         else ([], Some (ErrNotExist
                                 (''open '' @ p @ '': no such file or directory'')))),
      yaml_Unmarshal = (\<lambda>data config0. (config, None)),
      cdn_NewClient = (\<lambda>credential region cpf. ((credential, region, cpf), None)),
      client_PurgePathCache = (\<lambda>client request. result),
      ToJsonString = (\<lambda>response. response)\<rparr>"

definition example_response :: string where
  "example_response = ''{Response: {TaskId: t-1, RequestId: r-1}}''"

definition auth_failure :: go_error where
  "auth_failure =
     TencentCloudSDKError ''AuthFailure'' ''signature check failed'' ''r-2''
       ''[TencentCloudSDKError] Code=AuthFailure, Message=signature check failed, RequestId=r-2''"

text \<open>
  The scenarios of the specification's section 8: A, a valid configuration and a
  successful call; B, the same configuration with an empty \<^verbatim>\<open>secret_id\<close>; C, a
  valid configuration and a structured remote error. Further worlds: a transport
  error, a client that cannot be built, a file that cannot be read, a text that does not
  decode, an empty region, and paths that are all empty strings.
\<close>

definition scenario_A :: "(Credential \<times> string \<times> ClientProfile, string) env" where
  "scenario_A = example_env example_config (example_response, None)"

definition config_without_secret_id :: Config where
  "config_without_secret_id =
     example_config\<lparr>TencentCloud := (TencentCloud example_config)\<lparr>SecretID := []\<rparr>\<rparr>"

definition scenario_B :: "(Credential \<times> string \<times> ClientProfile, string) env" where
  "scenario_B = example_env config_without_secret_id (example_response, None)"

definition scenario_C :: "(Credential \<times> string \<times> ClientProfile, string) env" where
  "scenario_C = example_env example_config ([], Some auth_failure)"

definition transport_failure :: go_error where
  "transport_failure = ErrorString ''dial tcp: i/o timeout''"

definition scenario_transport :: "(Credential \<times> string \<times> ClientProfile, string) env" where
  "scenario_transport = example_env example_config ([], Some transport_failure)"

definition scenario_no_client :: "(Credential \<times> string \<times> ClientProfile, string) env" where
  "scenario_no_client =
     scenario_A\<lparr>cdn_NewClient :=
       (\<lambda>credential region cpf.
          ((credential, region, cpf), Some (ErrorString ''invalid client profile'')))\<rparr>"

definition scenario_unreadable :: "(Credential \<times> string \<times> ClientProfile, string) env" where
  "scenario_unreadable =
     scenario_A\<lparr>os_ReadFile :=
       (\<lambda>p. ([], Some (ErrorString (''open '' @ p @ '': permission denied''))))\<rparr>"

definition scenario_unparsable :: "(Credential \<times> string \<times> ClientProfile, string) env" where
  "scenario_unparsable =
     scenario_A\<lparr>yaml_Unmarshal :=
       (\<lambda>data config0.
          (config0, Some (ErrorString ''yaml: line 1: did not find expected key'')))\<rparr>"

definition config_without_region :: Config where
  "config_without_region =
     example_config\<lparr>TencentCloud := (TencentCloud example_config)\<lparr>Region := []\<rparr>\<rparr>"

definition scenario_no_region :: "(Credential \<times> string \<times> ClientProfile, string) env" where
  "scenario_no_region = example_env config_without_region (example_response, None)"

definition config_empty_paths :: Config where
  "config_empty_paths =
     example_config\<lparr>PurgeConfig := (PurgeConfig example_config)\<lparr>Paths := [[], []]\<rparr>\<rparr>"

definition scenario_empty_paths :: "(Credential \<times> string \<times> ClientProfile, string) env" where
  "scenario_empty_paths = example_env config_empty_paths (example_response, None)"

text \<open>
  A world with a second file: \<^verbatim>\<open>other.yaml\<close> exists beside \<^verbatim>\<open>config.yaml\<close>, and
  its text decodes to the configuration without \<^verbatim>\<open>secret_id\<close>.
\<close>

definition scenario_two_files :: "(Credential \<times> string \<times> ClientProfile, string) env" where
  "scenario_two_files =
     scenario_A
       \<lparr>os_Stat := (\<lambda>p. if p = ''config.yaml'' \<or> p = ''other.yaml'' then None
                       else Some (ErrNotExist (''stat '' @ p @ '': no such file or directory''))),
        os_ReadFile := (\<lambda>p. if p = ''config.yaml'' then (''tencent_cloud: ...'', None)
                           else if p = ''other.yaml'' then (''purge_config: ...'', None)
                           else ([], Some (ErrNotExist
                                   (''open '' @ p @ '': no such file or directory'')))),
        yaml_Unmarshal := (\<lambda>data config0.
                             if data = ''tencent_cloud: ...'' then (example_config, None)
                             else if data = ''purge_config: ...'' then
                               (config_without_secret_id, None)
                             else (config0, Some (ErrorString ''yaml: unexpected text'')))\<rparr>"

section \<open>Theorems\<close>

subsection \<open>Validation\<close>

lemma validateConfig_refines_spec: "validateConfig c = spec_validate c"
  by (simp add: validateConfig_def spec_validate_def listed_rules_def)

lemma validateConfig_fails_iff:
  "(validateConfig c \<noteq> None) =
     (SecretID (TencentCloud c) = [] \<or> SecretKey (TencentCloud c) = [] \<or>
      Paths (PurgeConfig c) = [] \<or> FlushType (PurgeConfig c) = [])"
  by (simp add: validateConfig_def)

text \<open>
  Claim C1. \<^verbatim>\<open>validateConfig\<close> returns an error if and only if at least one of the
  four required fields is missing (secret_id, secret_key or flush_type empty, or no
  path); the error it returns is the single reason of the first violated rule in the
  order secret_id, secret_key, paths, flush_type (it agrees with the specification's
  first-violated-rule validator on every configuration, and every rule listed before the
  reported one holds); and with all four fields present it returns no error.
\<close>

theorem C1_validateConfig_first_violation:
  "(validateConfig c \<noteq> None) =
     (SecretID (TencentCloud c) = [] \<or> SecretKey (TencentCloud c) = [] \<or>
      Paths (PurgeConfig c) = [] \<or> FlushType (PurgeConfig c) = [])
   \<and> validateConfig c = spec_validate c
   \<and> (\<forall>i < length listed_rules.
        violated c (listed_rules ! i) \<and> (\<forall>j < i. \<not> violated c (listed_rules ! j))
        \<longrightarrow> validateConfig c = Some (ErrorString (reason (listed_rules ! i))))
   \<and> (SecretID (TencentCloud c) \<noteq> [] \<and> SecretKey (TencentCloud c) \<noteq> [] \<and>
      Paths (PurgeConfig c) \<noteq> [] \<and> FlushType (PurgeConfig c) \<noteq> []
      \<longrightarrow> validateConfig c = None)"
proof (intro conjI)
  show "(validateConfig c \<noteq> None) =
     (SecretID (TencentCloud c) = [] \<or> SecretKey (TencentCloud c) = [] \<or>
      Paths (PurgeConfig c) = [] \<or> FlushType (PurgeConfig c) = [])"
    by (rule validateConfig_fails_iff)
  show "validateConfig c = spec_validate c"
    by (rule validateConfig_refines_spec)
  show "\<forall>i < length listed_rules.
        violated c (listed_rules ! i) \<and> (\<forall>j < i. \<not> violated c (listed_rules ! j))
        \<longrightarrow> validateConfig c = Some (ErrorString (reason (listed_rules ! i)))"
  proof (intro allI impI)
    fix i
    assume i: "i < length listed_rules"
      and v: "violated c (listed_rules ! i) \<and> (\<forall>j < i. \<not> violated c (listed_rules ! j))"
    from i have "i = 0 \<or> i = 1 \<or> i = 2 \<or> i = 3"
      by (auto simp: listed_rules_def)
    then show "validateConfig c = Some (ErrorString (reason (listed_rules ! i)))"
    proof (elim disjE)
      assume "i = 0"
      with v show ?thesis by (simp add: listed_rules_def validateConfig_def)
    next
      assume i1: "i = 1"
      with v have "\<not> violated c (listed_rules ! 0)" by simp
      with v i1 show ?thesis by (simp add: listed_rules_def validateConfig_def)
    next
      assume i2: "i = 2"
      with v have "\<not> violated c (listed_rules ! 0)" "\<not> violated c (listed_rules ! 1)"
        by simp_all
      with v i2 show ?thesis by (simp add: listed_rules_def validateConfig_def)
    next
      assume i3: "i = 3"
      with v have "\<not> violated c (listed_rules ! 0)" "\<not> violated c (listed_rules ! 1)"
        "\<not> violated c (listed_rules ! 2)"
        by simp_all
      with v i3 show ?thesis by (simp add: listed_rules_def validateConfig_def)
    qed
  qed
  show "SecretID (TencentCloud c) \<noteq> [] \<and> SecretKey (TencentCloud c) \<noteq> [] \<and>
      Paths (PurgeConfig c) \<noteq> [] \<and> FlushType (PurgeConfig c) \<noteq> []
      \<longrightarrow> validateConfig c = None"
    by (simp add: validateConfig_def)
qed

theorem C1_witness:
  "validateConfig example_config = None
   \<and> validateConfig zero_Config = Some (ErrorString ''secret_id is required in configuration'')"
  using C1_validateConfig_first_violation [of example_config]
    C1_validateConfig_first_violation [of zero_Config]
  by (simp add: example_config_def zero_Config_def spec_validate_def listed_rules_def)

subsection \<open>The request\<close>

lemma buildRequest_fields:
  "req_Paths (buildRequest c) = map Some (Paths (PurgeConfig c))"
  "req_FlushType (buildRequest c) = Some (FlushType (PurgeConfig c))"
  "req_UrlEncode (buildRequest c) = Some (UrlEncode (PurgeConfig c))"
  "req_Area (buildRequest c) =
     (if Area (PurgeConfig c) = [] then None else Some (Area (PurgeConfig c)))"
  by (simp_all add: buildRequest_def NewPurgePathCacheRequest_def StringPtrs_def Let_def)

text \<open>
  Claim C2. The request built from a configuration (validated or not) carries the
  configuration's paths element for element in the same order, its flush type and its
  URL-encode switch unchanged, and its area exactly when the area is not the empty
  string: the request's area is \<^verbatim>\<open>nil\<close> if and only if the configured area is
  empty, and otherwise it is the configured area.
\<close>

theorem C2_buildRequest_copies:
  "length (req_Paths (buildRequest c)) = length (Paths (PurgeConfig c))
   \<and> (\<forall>i < length (Paths (PurgeConfig c)).
        req_Paths (buildRequest c) ! i = Some (Paths (PurgeConfig c) ! i))
   \<and> req_FlushType (buildRequest c) = Some (FlushType (PurgeConfig c))
   \<and> req_UrlEncode (buildRequest c) = Some (UrlEncode (PurgeConfig c))
   \<and> (req_Area (buildRequest c) \<noteq> None) = (Area (PurgeConfig c) \<noteq> [])
   \<and> (req_Area (buildRequest c) = None) = (Area (PurgeConfig c) = [])
   \<and> (Area (PurgeConfig c) \<noteq> [] \<longrightarrow> req_Area (buildRequest c) = Some (Area (PurgeConfig c)))"
  by (simp add: buildRequest_fields)

theorem C2_witness:
  "req_Paths (buildRequest example_config) ! 0 = Some ''http://example.com/a.js''
   \<and> length (req_Paths (buildRequest example_config)) = 1
   \<and> req_FlushType (buildRequest example_config) = Some ''delete''
   \<and> req_UrlEncode (buildRequest example_config) = Some False
   \<and> req_Area (buildRequest example_config) = None
   \<and> req_Area (buildRequest
        (example_config\<lparr>PurgeConfig := (PurgeConfig example_config)\<lparr>Area := ''mainland''\<rparr>\<rparr>))
       = Some ''mainland''"
  using C2_buildRequest_copies [of example_config]
    C2_buildRequest_copies
      [of "example_config\<lparr>PurgeConfig := (PurgeConfig example_config)\<lparr>Area := ''mainland''\<rparr>\<rparr>"]
  by (simp add: example_config_def)

subsection \<open>The stages of main\<close>

text \<open>
  What \<^verbatim>\<open>loadConfig\<close> logs, and \<^verbatim>\<open>main\<close> stage by stage: each lemma rewrites
  the run under the results of the library calls made up to that stage.
\<close>

lemma loadConfig_calls:
  "snd (loadConfig env p) = [Call_os_Stat p] \<or>
   snd (loadConfig env p) = [Call_os_Stat p, Call_os_ReadFile p]"
  by (simp add: loadConfig_def Let_def split: prod.splits)

lemma loadConfig_no_network: "network_calls (snd (loadConfig env p)) = []"
  using loadConfig_calls [of env p] by (auto simp: network_calls_def)

lemma main_flag_exit:
  "flag_Parse env CommandLine args = Inl status \<Longrightarrow>
   main env args = \<lparr>exit_status = status, stdout = [], calls = []\<rparr>"
  by (simp add: main_def)

lemma main_load_error:
  "flag_Parse env CommandLine args = Inr actual \<Longrightarrow>
   fst (loadConfig env (configPath actual)) = Inl err \<Longrightarrow>
   main env args =
     \<lparr>exit_status = 1, stdout = ''Error loading configuration: '' @ Error err @ newline,
      calls = snd (loadConfig env (configPath actual))\<rparr>"
  by (cases "loadConfig env (configPath actual)") (simp add: main_def)

lemma main_validation_error:
  "flag_Parse env CommandLine args = Inr actual \<Longrightarrow>
   fst (loadConfig env (configPath actual)) = Inr c \<Longrightarrow>
   validateConfig c = Some e \<Longrightarrow>
   main env args =
     \<lparr>exit_status = 1, stdout = ''Configuration validation failed: '' @ Error e @ newline,
      calls = snd (loadConfig env (configPath actual))\<rparr>"
  by (cases "loadConfig env (configPath actual)") (simp add: main_def)

lemma main_purge:
  "flag_Parse env CommandLine args = Inr actual \<Longrightarrow>
   fst (loadConfig env (configPath actual)) = Inr c \<Longrightarrow>
   validateConfig c = None \<Longrightarrow>
   main env args = purge env c (snd (loadConfig env (configPath actual)))"
  by (cases "loadConfig env (configPath actual)") (simp add: main_def)

lemma purge_client_error:
  "cdn_NewClient env (NewCredential (SecretID (TencentCloud c)) (SecretKey (TencentCloud c)))
     (Region (TencentCloud c)) clientProfile = (client, Some e) \<Longrightarrow>
   purge env c log =
     \<lparr>exit_status = 1, stdout = ''Error creating CDN client: '' @ Error e @ newline,
      calls = log @ [Call_cdn_NewClient
        (NewCredential (SecretID (TencentCloud c)) (SecretKey (TencentCloud c)))
        (Region (TencentCloud c)) clientProfile]\<rparr>"
  by (simp add: purge_def Let_def)

lemma purge_sent:
  "cdn_NewClient env (NewCredential (SecretID (TencentCloud c)) (SecretKey (TencentCloud c)))
     (Region (TencentCloud c)) clientProfile = (client, None) \<Longrightarrow>
   client_PurgePathCache env client (buildRequest c) = (response, err) \<Longrightarrow>
   purge env c log =
     \<lparr>exit_status = (if err = None then 0 else 1),
      stdout = (case err of
                  None \<Rightarrow> ''Purge operation completed successfully: '' @
                            ToJsonString env response @ newline
                | Some e \<Rightarrow> (if chain_has_sdk_error e then ''API error returned: ''
                             else ''Unexpected error: '') @ Error e @ newline),
      calls = log @ [Call_cdn_NewClient
        (NewCredential (SecretID (TencentCloud c)) (SecretKey (TencentCloud c)))
        (Region (TencentCloud c)) clientProfile,
        Call_PurgePathCache client (buildRequest c)]\<rparr>"
  by (cases err) (simp_all add: purge_def Let_def)

lemma main_network_calls_le_1: "length (network_calls (calls (main env args))) \<le> 1"
proof (cases "flag_Parse env CommandLine args")
  case (Inl status)
  then show ?thesis by (simp add: main_flag_exit network_calls_def)
next
  case (Inr actual)
  note parsed = this
  show ?thesis
  proof (cases "fst (loadConfig env (configPath actual))")
    case (Inl err)
    then show ?thesis
      by (simp add: main_load_error [OF parsed] loadConfig_no_network)
  next
    case (Inr c)
    note loaded = this
    show ?thesis
    proof (cases "validateConfig c")
      case (Some e)
      then show ?thesis
        by (simp add: main_validation_error [OF parsed loaded] loadConfig_no_network)
    next
      case None
      note valid = this
      obtain client cerr where nc:
        "cdn_NewClient env (NewCredential (SecretID (TencentCloud c)) (SecretKey (TencentCloud c)))
           (Region (TencentCloud c)) clientProfile = (client, cerr)"
        by (cases "cdn_NewClient env
           (NewCredential (SecretID (TencentCloud c)) (SecretKey (TencentCloud c)))
           (Region (TencentCloud c)) clientProfile")
      show ?thesis
      proof (cases cerr)
        case (Some e)
        with nc show ?thesis
          using loadConfig_no_network [of env "configPath actual"]
          by (simp add: main_purge [OF parsed loaded valid] purge_client_error network_calls_def)
      next
        case None
        obtain response err where pc:
          "client_PurgePathCache env client (buildRequest c) = (response, err)"
          by (cases "client_PurgePathCache env client (buildRequest c)")
        from nc None pc show ?thesis
          using loadConfig_no_network [of env "configPath actual"]
          by (simp add: main_purge [OF parsed loaded valid] purge_sent network_calls_def)
      qed
    qed
  qed
qed

lemma flow_succeeds_flag_exit:
  "flag_Parse env CommandLine args = Inl status \<Longrightarrow> \<not> flow_succeeds env args"
  by (simp add: flow_succeeds_def)

lemma main_exit_status:
  assumes parsed: "flag_Parse env CommandLine args = Inr actual"
  shows "exit_status (main env args) = (if flow_succeeds env args then 0 else 1)"
proof (cases "fst (loadConfig env (configPath actual))")
  case (Inl err)
  then show ?thesis
    by (simp add: main_load_error [OF parsed] flow_succeeds_def parsed)
next
  case (Inr c)
  note loaded = this
  show ?thesis
  proof (cases "validateConfig c")
    case (Some e)
    then show ?thesis
      by (simp add: main_validation_error [OF parsed loaded] flow_succeeds_def parsed loaded)
  next
    case None
    note valid = this
    obtain client cerr where nc:
      "cdn_NewClient env (NewCredential (SecretID (TencentCloud c)) (SecretKey (TencentCloud c)))
         (Region (TencentCloud c)) clientProfile = (client, cerr)"
      by (cases "cdn_NewClient env
         (NewCredential (SecretID (TencentCloud c)) (SecretKey (TencentCloud c)))
         (Region (TencentCloud c)) clientProfile")
    show ?thesis
    proof (cases cerr)
      case (Some e)
      with nc show ?thesis
        by (simp add: main_purge [OF parsed loaded valid] purge_client_error
            flow_succeeds_def parsed loaded valid)
    next
      case None
      obtain response err where pc:
        "client_PurgePathCache env client (buildRequest c) = (response, err)"
        by (cases "client_PurgePathCache env client (buildRequest c)")
      from nc None pc show ?thesis
        by (simp add: main_purge [OF parsed loaded valid] purge_sent
            flow_succeeds_def parsed loaded valid)
    qed
  qed
qed

lemma main_calls_after_parsing:
  assumes parsed: "flag_Parse env CommandLine args = Inr actual"
  shows "\<exists>rest. calls (main env args) = snd (loadConfig env (configPath actual)) @ rest \<and>
           (\<forall>x \<in> set rest. os_path x = None)"
proof (cases "fst (loadConfig env (configPath actual))")
  case (Inl err)
  then show ?thesis
    by (simp add: main_load_error [OF parsed])
next
  case (Inr c)
  note loaded = this
  show ?thesis
  proof (cases "validateConfig c")
    case (Some e)
    then show ?thesis
      by (simp add: main_validation_error [OF parsed loaded])
  next
    case None
    note valid = this
    obtain client cerr where nc:
      "cdn_NewClient env (NewCredential (SecretID (TencentCloud c)) (SecretKey (TencentCloud c)))
         (Region (TencentCloud c)) clientProfile = (client, cerr)"
      by (cases "cdn_NewClient env
         (NewCredential (SecretID (TencentCloud c)) (SecretKey (TencentCloud c)))
         (Region (TencentCloud c)) clientProfile")
    show ?thesis
    proof (cases cerr)
      case (Some e)
      with nc show ?thesis
        by (simp add: main_purge [OF parsed loaded valid] purge_client_error)
    next
      case None
      obtain response err where pc:
        "client_PurgePathCache env client (buildRequest c) = (response, err)"
        by (cases "client_PurgePathCache env client (buildRequest c)")
      from nc None pc show ?thesis
        by (simp add: main_purge [OF parsed loaded valid] purge_sent)
    qed
  qed
qed

lemma map_filter_app:
  "List.map_filter f (xs @ ys) = List.map_filter f xs @ List.map_filter f ys"
  by (simp add: List.map_filter_def)

lemma main_loads_from:
  assumes parsed: "flag_Parse env CommandLine args = Inr actual"
  shows "take 1 (calls (main env args)) = [Call_os_Stat (configPath actual)]
     \<and> set (List.map_filter os_path (calls (main env args))) = {configPath actual}"
proof -
  from main_calls_after_parsing [OF parsed] obtain rest where
    r: "calls (main env args) = snd (loadConfig env (configPath actual)) @ rest"
    and n: "\<forall>x \<in> set rest. os_path x = None"
    by blast
  from n have e: "List.map_filter os_path rest = []"
    by (simp add: List.map_filter_def filter_empty_conv)
  from loadConfig_calls [of env "configPath actual"] show ?thesis
  proof
    assume "snd (loadConfig env (configPath actual)) = [Call_os_Stat (configPath actual)]"
    then show ?thesis
      by (simp add: r map_filter_app e List.map_filter_simps)
  next
    assume "snd (loadConfig env (configPath actual)) =
      [Call_os_Stat (configPath actual), Call_os_ReadFile (configPath actual)]"
    then show ?thesis
      by (simp add: r map_filter_app e List.map_filter_simps)
  qed
qed

lemma loadConfig_no_client: "List.map_filter client_region (snd (loadConfig env p)) = []"
  using loadConfig_calls [of env p] by (auto simp: List.map_filter_simps)

lemma purge_regions:
  "List.map_filter client_region (calls (purge env c log)) =
     List.map_filter client_region log @ [Region (TencentCloud c)]"
proof -
  obtain client cerr where nc:
    "cdn_NewClient env (NewCredential (SecretID (TencentCloud c)) (SecretKey (TencentCloud c)))
       (Region (TencentCloud c)) clientProfile = (client, cerr)"
    by (cases "cdn_NewClient env
       (NewCredential (SecretID (TencentCloud c)) (SecretKey (TencentCloud c)))
       (Region (TencentCloud c)) clientProfile")
  show ?thesis
  proof (cases cerr)
    case (Some e)
    with nc show ?thesis
      by (simp add: purge_client_error map_filter_app List.map_filter_simps)
  next
    case None
    obtain response err where pc:
      "client_PurgePathCache env client (buildRequest c) = (response, err)"
      by (cases "client_PurgePathCache env client (buildRequest c)")
    from nc None pc show ?thesis
      by (simp add: purge_sent map_filter_app List.map_filter_simps)
  qed
qed

subsection \<open>The example worlds\<close>

lemma example_parse_nothing:
  "flag_Parse (example_env cfg res) CommandLine [] = Inr (\<lambda>name. None)"
  by (simp add: example_env_def go_flag_Parse_def)

lemma example_parse_c:
  "flag_Parse (example_env cfg res) CommandLine [''-c'', p] = Inr ((\<lambda>name. None)(''c'' \<mapsto> p))"
  by (simp add: example_env_def go_flag_Parse_def CommandLine_def flag_c_def split_flag_def)

lemma configPath_default: "configPath (\<lambda>name. None) = ''config.yaml''"
  by (simp add: configPath_def flag_c_def)

lemma configPath_given: "configPath ((\<lambda>name. None)(''c'' \<mapsto> p)) = p"
  by (simp add: configPath_def flag_c_def)

lemma example_loadConfig:
  "loadConfig (example_env cfg res) ''config.yaml'' =
     (Inr cfg, [Call_os_Stat ''config.yaml'', Call_os_ReadFile ''config.yaml''])"
  by (simp add: loadConfig_def example_env_def)

lemma example_config_valid: "validateConfig example_config = None"
  by (simp add: validateConfig_def example_config_def)

lemma example_NewClient:
  "cdn_NewClient (example_env cfg res) credential region cpf = ((credential, region, cpf), None)"
  by (simp add: example_env_def)

lemma example_PurgePathCache:
  "client_PurgePathCache (example_env cfg res) client request = res"
  by (simp add: example_env_def)

lemma example_credential:
  "NewCredential (SecretID (TencentCloud example_config))
     (SecretKey (TencentCloud example_config)) =
   \<lparr>cred_SecretId = ''AKID'', cred_SecretKey = ''KEY''\<rparr>"
  by (simp add: NewCredential_def example_config_def)

subsection \<open>Validation before the network\<close>

text \<open>
  Claim C3. When the configuration that was loaded has an empty \<^verbatim>\<open>secret_id\<close>, an
  empty \<^verbatim>\<open>secret_key\<close>, no path or an empty \<^verbatim>\<open>flush_type\<close>, the program ends with
  exit status 1, its output is the line \<^verbatim>\<open>Configuration validation failed: \<close> followed by
  the validator's reason, and the purge call is never reached: the log of the run holds
  no network operation, only the calls \<^verbatim>\<open>loadConfig\<close> made.
\<close>

theorem C3_invalid_config_stops_before_network:
  assumes parsed: "flag_Parse env CommandLine args = Inr actual"
    and loaded: "fst (loadConfig env (configPath actual)) = Inr c"
    and missing: "SecretID (TencentCloud c) = [] \<or> SecretKey (TencentCloud c) = [] \<or>
                  Paths (PurgeConfig c) = [] \<or> FlushType (PurgeConfig c) = []"
  shows "exit_status (main env args) = 1
     \<and> (\<exists>e. validateConfig c = Some e \<and>
             stdout (main env args) =
               ''Configuration validation failed: '' @ Error e @ newline)
     \<and> network_calls (calls (main env args)) = []
     \<and> (\<forall>client request. Call_PurgePathCache client request \<notin> set (calls (main env args)))
     \<and> calls (main env args) = snd (loadConfig env (configPath actual))"
proof -
  from missing have "validateConfig c \<noteq> None"
    using validateConfig_fails_iff [of c] by blast
  then obtain e where e: "validateConfig c = Some e"
    by auto
  have m: "main env args =
     \<lparr>exit_status = 1, stdout = ''Configuration validation failed: '' @ Error e @ newline,
      calls = snd (loadConfig env (configPath actual))\<rparr>"
    by (rule main_validation_error [OF parsed loaded e])
  have none: "\<forall>client request.
      Call_PurgePathCache client request \<notin> set (snd (loadConfig env (configPath actual)))"
    using loadConfig_calls [of env "configPath actual"] by auto
  show ?thesis
    using e none by (simp add: m loadConfig_no_network)
qed

theorem C3_witness:
  "exit_status (main scenario_B []) = 1
   \<and> stdout (main scenario_B []) =
       ''Configuration validation failed: secret_id is required in configuration'' @ newline
   \<and> network_calls (calls (main scenario_B [])) = []"
proof -
  have parsed: "flag_Parse scenario_B CommandLine [] = Inr (\<lambda>name. None)"
    by (simp add: scenario_B_def example_parse_nothing)
  have loaded: "fst (loadConfig scenario_B (configPath (\<lambda>name. None))) =
      Inr config_without_secret_id"
    by (simp add: scenario_B_def configPath_default example_loadConfig)
  have missing: "SecretID (TencentCloud config_without_secret_id) = [] \<or>
      SecretKey (TencentCloud config_without_secret_id) = [] \<or>
      Paths (PurgeConfig config_without_secret_id) = [] \<or>
      FlushType (PurgeConfig config_without_secret_id) = []"
    by (simp add: config_without_secret_id_def)
  have v: "validateConfig config_without_secret_id =
      Some (ErrorString ''secret_id is required in configuration'')"
    by (simp add: validateConfig_def config_without_secret_id_def)
  from C3_invalid_config_stops_before_network [OF parsed loaded missing] v
  show ?thesis by auto
qed

subsection \<open>Loading the configuration\<close>

text \<open>
  Claim C4. \<^verbatim>\<open>loadConfig\<close> on a path: when \<^verbatim>\<open>os.Stat\<close> reports that the path does
  not exist it returns the error \<^verbatim>\<open>config file does not exist: <path>\<close> and reads
  nothing; when the file is there and \<^verbatim>\<open>os.ReadFile\<close> fails it returns
  \<^verbatim>\<open>failed to read config file: <cause>\<close>; when the text is read and the YAML decoder
  rejects it, \<^verbatim>\<open>failed to parse YAML config: <cause>\<close>; and when all three succeed it
  returns the decoded configuration. Every call ends in one of the two ordinary
  results, the configuration or an error value built by \<^verbatim>\<open>fmt.Errorf\<close>: a missing
  path is an error value, never a fault.
\<close>

theorem C4_loadConfig_results:
  "(os_IsNotExist (os_Stat env p) \<longrightarrow>
      loadConfig env p =
        (Inl (ErrorString (''config file does not exist: '' @ p)), [Call_os_Stat p]))
   \<and> (\<not> os_IsNotExist (os_Stat env p) \<and> snd (os_ReadFile env p) = Some e \<longrightarrow>
      fst (loadConfig env p) = Inl (ErrorString (''failed to read config file: '' @ Error e)))
   \<and> (\<not> os_IsNotExist (os_Stat env p) \<and> os_ReadFile env p = (data, None) \<and>
      snd (yaml_Unmarshal env data zero_Config) = Some e \<longrightarrow>
      fst (loadConfig env p) = Inl (ErrorString (''failed to parse YAML config: '' @ Error e)))
   \<and> (\<not> os_IsNotExist (os_Stat env p) \<and> os_ReadFile env p = (data, None) \<and>
      yaml_Unmarshal env data zero_Config = (c, None) \<longrightarrow>
      fst (loadConfig env p) = Inr c)
   \<and> ((\<exists>c'. fst (loadConfig env p) = Inr c') \<or>
      (\<exists>m. fst (loadConfig env p) = Inl (ErrorString m)))"
proof -
  have cases: "(os_IsNotExist (os_Stat env p) \<longrightarrow>
      loadConfig env p =
        (Inl (ErrorString (''config file does not exist: '' @ p)), [Call_os_Stat p]))
   \<and> (\<not> os_IsNotExist (os_Stat env p) \<and> snd (os_ReadFile env p) = Some e \<longrightarrow>
      fst (loadConfig env p) = Inl (ErrorString (''failed to read config file: '' @ Error e)))
   \<and> (\<not> os_IsNotExist (os_Stat env p) \<and> os_ReadFile env p = (data, None) \<and>
      snd (yaml_Unmarshal env data zero_Config) = Some e \<longrightarrow>
      fst (loadConfig env p) = Inl (ErrorString (''failed to parse YAML config: '' @ Error e)))
   \<and> (\<not> os_IsNotExist (os_Stat env p) \<and> os_ReadFile env p = (data, None) \<and>
      yaml_Unmarshal env data zero_Config = (c, None) \<longrightarrow>
      fst (loadConfig env p) = Inr c)"
    by (auto simp: loadConfig_def Let_def split: prod.splits)
  have total: "(\<exists>c'. fst (loadConfig env p) = Inr c') \<or>
      (\<exists>m. fst (loadConfig env p) = Inl (ErrorString m))"
    by (simp add: loadConfig_def Let_def split: prod.splits)
  from cases total show ?thesis by blast
qed

theorem C4_witness:
  "fst (loadConfig scenario_A ''nope.yaml'') =
     Inl (ErrorString ''config file does not exist: nope.yaml'')
   \<and> fst (loadConfig scenario_unreadable ''config.yaml'') =
     Inl (ErrorString ''failed to read config file: open config.yaml: permission denied'')
   \<and> fst (loadConfig scenario_unparsable ''config.yaml'') =
     Inl (ErrorString
       ''failed to parse YAML config: yaml: line 1: did not find expected key'')
   \<and> fst (loadConfig scenario_A ''config.yaml'') = Inr example_config"
  using C4_loadConfig_results [where env = scenario_A and p = "''nope.yaml''"]
    C4_loadConfig_results [where env = scenario_unreadable and p = "''config.yaml''"
      and e = "ErrorString ''open config.yaml: permission denied''"]
    C4_loadConfig_results [where env = scenario_unparsable and p = "''config.yaml''"
      and e = "ErrorString ''yaml: line 1: did not find expected key''"
      and data = "''tencent_cloud: ...''"]
    C4_loadConfig_results [where env = scenario_A and p = "''config.yaml''"
      and data = "''tencent_cloud: ...''" and c = example_config]
  by (simp add: scenario_A_def scenario_unreadable_def scenario_unparsable_def example_env_def)

subsection \<open>The purge call\<close>

lemma buildRequest_explicit:
  "buildRequest c =
     \<lparr>req_Paths = map Some (Paths (PurgeConfig c)),
      req_FlushType = Some (FlushType (PurgeConfig c)),
      req_UrlEncode = Some (UrlEncode (PurgeConfig c)),
      req_Area = (if Area (PurgeConfig c) = [] then None else Some (Area (PurgeConfig c)))\<rparr>"
  by (simp add: buildRequest_def NewPurgePathCacheRequest_def StringPtrs_def Let_def)

text \<open>
  Claim C5, as the program has it. No run makes a second network operation. When the
  loaded configuration is valid and \<^verbatim>\<open>cdn.NewClient\<close>, given the configuration's
  credentials and region and the endpoint \<^verbatim>\<open>cdn.tencentcloudapi.com\<close>, returns a client
  and no error, the run makes exactly one network operation: \<^verbatim>\<open>PurgePathCache\<close> on that
  client with the request whose paths are the configuration's paths in order, whose flush
  type and URL-encode switch are the configuration's, and whose area is the configured
  area when that is not empty and is absent otherwise; and when that call returns no
  error the program prints \<^verbatim>\<open>Purge operation completed successfully: \<close> followed by the
  serialized response and its exit status is 0. When \<^verbatim>\<open>cdn.NewClient\<close> returns an error
  (lines 104-108), the run makes no network operation, prints
  \<^verbatim>\<open>Error creating CDN client: \<close> followed by the error, and its exit status is 1.
\<close>

theorem C5_one_purge_call_when_client_built:
  "length (network_calls (calls (main env args))) \<le> 1
   \<and> (flag_Parse env CommandLine args = Inr actual \<and>
      fst (loadConfig env (configPath actual)) = Inr c \<and>
      SecretID (TencentCloud c) \<noteq> [] \<and> SecretKey (TencentCloud c) \<noteq> [] \<and>
      Paths (PurgeConfig c) \<noteq> [] \<and> FlushType (PurgeConfig c) \<noteq> [] \<and>
      cdn_NewClient env
        \<lparr>cred_SecretId = SecretID (TencentCloud c), cred_SecretKey = SecretKey (TencentCloud c)\<rparr>
        (Region (TencentCloud c))
        \<lparr>HttpProfile_Endpoint = ''cdn.tencentcloudapi.com''\<rparr> = (client, None) \<and>
      request =
        \<lparr>req_Paths = map Some (Paths (PurgeConfig c)),
         req_FlushType = Some (FlushType (PurgeConfig c)),
         req_UrlEncode = Some (UrlEncode (PurgeConfig c)),
         req_Area = (if Area (PurgeConfig c) = [] then None
                     else Some (Area (PurgeConfig c)))\<rparr>
      \<longrightarrow> network_calls (calls (main env args)) = [Call_PurgePathCache client request]
        \<and> (client_PurgePathCache env client request = (response, None) \<longrightarrow>
             exit_status (main env args) = 0 \<and>
             stdout (main env args) =
               ''Purge operation completed successfully: '' @
               ToJsonString env response @ newline))
   \<and> (flag_Parse env CommandLine args = Inr actual \<and>
      fst (loadConfig env (configPath actual)) = Inr c \<and>
      SecretID (TencentCloud c) \<noteq> [] \<and> SecretKey (TencentCloud c) \<noteq> [] \<and>
      Paths (PurgeConfig c) \<noteq> [] \<and> FlushType (PurgeConfig c) \<noteq> [] \<and>
      cdn_NewClient env
        \<lparr>cred_SecretId = SecretID (TencentCloud c), cred_SecretKey = SecretKey (TencentCloud c)\<rparr>
        (Region (TencentCloud c))
        \<lparr>HttpProfile_Endpoint = ''cdn.tencentcloudapi.com''\<rparr> = (client, Some e)
      \<longrightarrow> network_calls (calls (main env args)) = [] \<and>
          exit_status (main env args) = 1 \<and>
          stdout (main env args) = ''Error creating CDN client: '' @ Error e @ newline)"
proof (intro conjI impI)
  show "length (network_calls (calls (main env args))) \<le> 1"
    by (rule main_network_calls_le_1)
next
  assume h: "flag_Parse env CommandLine args = Inr actual \<and>
      fst (loadConfig env (configPath actual)) = Inr c \<and>
      SecretID (TencentCloud c) \<noteq> [] \<and> SecretKey (TencentCloud c) \<noteq> [] \<and>
      Paths (PurgeConfig c) \<noteq> [] \<and> FlushType (PurgeConfig c) \<noteq> [] \<and>
      cdn_NewClient env
        \<lparr>cred_SecretId = SecretID (TencentCloud c), cred_SecretKey = SecretKey (TencentCloud c)\<rparr>
        (Region (TencentCloud c))
        \<lparr>HttpProfile_Endpoint = ''cdn.tencentcloudapi.com''\<rparr> = (client, None) \<and>
      request =
        \<lparr>req_Paths = map Some (Paths (PurgeConfig c)),
         req_FlushType = Some (FlushType (PurgeConfig c)),
         req_UrlEncode = Some (UrlEncode (PurgeConfig c)),
         req_Area = (if Area (PurgeConfig c) = [] then None
                     else Some (Area (PurgeConfig c)))\<rparr>"
  then have valid: "validateConfig c = None"
    using validateConfig_fails_iff [of c] by auto
  from h have m: "main env args = purge env c (snd (loadConfig env (configPath actual)))"
    using main_purge valid by blast
  from h have r: "request = buildRequest c"
    by (simp only: buildRequest_explicit)
  from h have built: "cdn_NewClient env
      (NewCredential (SecretID (TencentCloud c)) (SecretKey (TencentCloud c)))
      (Region (TencentCloud c)) clientProfile = (client, None)"
    by (simp add: NewCredential_def clientProfile_def)
  obtain response' err where pc:
    "client_PurgePathCache env client (buildRequest c) = (response', err)"
    by (cases "client_PurgePathCache env client (buildRequest c)")
  show "network_calls (calls (main env args)) = [Call_PurgePathCache client request]"
    using loadConfig_no_network [of env "configPath actual"]
    by (simp add: m r purge_sent [OF built pc] network_calls_def)
  assume ok: "client_PurgePathCache env client request = (response, None)"
  then have ok': "client_PurgePathCache env client (buildRequest c) = (response, None)"
    by (simp add: r)
  show "exit_status (main env args) = 0"
    by (simp add: m purge_sent [OF built ok'])
  show "stdout (main env args) =
      ''Purge operation completed successfully: '' @ ToJsonString env response @ newline"
    by (simp add: m purge_sent [OF built ok'])
next
  assume h: "flag_Parse env CommandLine args = Inr actual \<and>
      fst (loadConfig env (configPath actual)) = Inr c \<and>
      SecretID (TencentCloud c) \<noteq> [] \<and> SecretKey (TencentCloud c) \<noteq> [] \<and>
      Paths (PurgeConfig c) \<noteq> [] \<and> FlushType (PurgeConfig c) \<noteq> [] \<and>
      cdn_NewClient env
        \<lparr>cred_SecretId = SecretID (TencentCloud c), cred_SecretKey = SecretKey (TencentCloud c)\<rparr>
        (Region (TencentCloud c))
        \<lparr>HttpProfile_Endpoint = ''cdn.tencentcloudapi.com''\<rparr> = (client, Some e)"
  then have valid: "validateConfig c = None"
    using validateConfig_fails_iff [of c] by auto
  from h have m: "main env args = purge env c (snd (loadConfig env (configPath actual)))"
    using main_purge valid by blast
  from h have failed: "cdn_NewClient env
      (NewCredential (SecretID (TencentCloud c)) (SecretKey (TencentCloud c)))
      (Region (TencentCloud c)) clientProfile = (client, Some e)"
    by (simp add: NewCredential_def clientProfile_def)
  show "network_calls (calls (main env args)) = []"
    using loadConfig_no_network [of env "configPath actual"]
    by (simp add: m purge_client_error [OF failed] network_calls_def)
  show "exit_status (main env args) = 1"
    by (simp add: m purge_client_error [OF failed])
  show "stdout (main env args) = ''Error creating CDN client: '' @ Error e @ newline"
    by (simp add: m purge_client_error [OF failed])
qed

theorem C5_witness:
  "network_calls (calls (main scenario_A [])) =
     [Call_PurgePathCache
        (\<lparr>cred_SecretId = ''AKID'', cred_SecretKey = ''KEY''\<rparr>, ''ap-guangzhou'',
         \<lparr>HttpProfile_Endpoint = ''cdn.tencentcloudapi.com''\<rparr>)
        \<lparr>req_Paths = [Some ''http://example.com/a.js''], req_FlushType = Some ''delete'',
         req_UrlEncode = Some False, req_Area = None\<rparr>]
   \<and> exit_status (main scenario_A []) = 0
   \<and> stdout (main scenario_A []) =
       ''Purge operation completed successfully: '' @ example_response @ newline
   \<and> network_calls (calls (main scenario_no_client [])) = []
   \<and> exit_status (main scenario_no_client []) = 1"
proof -
  have fields: "SecretID (TencentCloud example_config) \<noteq> [] \<and>
      SecretKey (TencentCloud example_config) \<noteq> [] \<and>
      Paths (PurgeConfig example_config) \<noteq> [] \<and> FlushType (PurgeConfig example_config) \<noteq> []"
    by (simp add: example_config_def)
  have a: "network_calls (calls (main scenario_A [])) =
     [Call_PurgePathCache
        (\<lparr>cred_SecretId = ''AKID'', cred_SecretKey = ''KEY''\<rparr>, ''ap-guangzhou'',
         \<lparr>HttpProfile_Endpoint = ''cdn.tencentcloudapi.com''\<rparr>)
        \<lparr>req_Paths = [Some ''http://example.com/a.js''], req_FlushType = Some ''delete'',
         req_UrlEncode = Some False, req_Area = None\<rparr>]
   \<and> exit_status (main scenario_A []) = 0
   \<and> stdout (main scenario_A []) =
       ''Purge operation completed successfully: '' @ example_response @ newline"
  proof -
    have parsed: "flag_Parse scenario_A CommandLine [] = Inr (\<lambda>name. None)"
      by (simp add: scenario_A_def example_parse_nothing)
    have loaded: "fst (loadConfig scenario_A (configPath (\<lambda>name. None))) = Inr example_config"
      by (simp add: scenario_A_def configPath_default example_loadConfig)
    have built: "cdn_NewClient scenario_A
        \<lparr>cred_SecretId = SecretID (TencentCloud example_config),
         cred_SecretKey = SecretKey (TencentCloud example_config)\<rparr>
        (Region (TencentCloud example_config))
        \<lparr>HttpProfile_Endpoint = ''cdn.tencentcloudapi.com''\<rparr> =
        ((\<lparr>cred_SecretId = ''AKID'', cred_SecretKey = ''KEY''\<rparr>, ''ap-guangzhou'',
          \<lparr>HttpProfile_Endpoint = ''cdn.tencentcloudapi.com''\<rparr>), None)"
      by (simp add: scenario_A_def example_NewClient example_config_def)
    have request: "\<lparr>req_Paths = [Some ''http://example.com/a.js''],
         req_FlushType = Some ''delete'', req_UrlEncode = Some False, req_Area = None\<rparr> =
        \<lparr>req_Paths = map Some (Paths (PurgeConfig example_config)),
         req_FlushType = Some (FlushType (PurgeConfig example_config)),
         req_UrlEncode = Some (UrlEncode (PurgeConfig example_config)),
         req_Area = (if Area (PurgeConfig example_config) = [] then None
                     else Some (Area (PurgeConfig example_config)))\<rparr>"
      by (simp add: example_config_def)
    have sent: "client_PurgePathCache scenario_A
        (\<lparr>cred_SecretId = ''AKID'', cred_SecretKey = ''KEY''\<rparr>, ''ap-guangzhou'',
         \<lparr>HttpProfile_Endpoint = ''cdn.tencentcloudapi.com''\<rparr>)
        \<lparr>req_Paths = [Some ''http://example.com/a.js''],
         req_FlushType = Some ''delete'', req_UrlEncode = Some False, req_Area = None\<rparr> =
        (example_response, None)"
      by (simp add: scenario_A_def example_PurgePathCache)
    have json: "ToJsonString scenario_A example_response = example_response"
      by (simp add: scenario_A_def example_env_def)
    from C5_one_purge_call_when_client_built
      [where env = scenario_A and args = "[]" and actual = "\<lambda>name. None"
        and c = example_config and response = example_response
        and client = "(\<lparr>cred_SecretId = ''AKID'', cred_SecretKey = ''KEY''\<rparr>,
          ''ap-guangzhou'', \<lparr>HttpProfile_Endpoint = ''cdn.tencentcloudapi.com''\<rparr>)"
        and request = "\<lparr>req_Paths = [Some ''http://example.com/a.js''],
         req_FlushType = Some ''delete'', req_UrlEncode = Some False, req_Area = None\<rparr>",
        THEN conjunct2, THEN conjunct1]
      parsed loaded fields built request sent
    show ?thesis by (simp add: json)
  qed
  have n: "network_calls (calls (main scenario_no_client [])) = []
   \<and> exit_status (main scenario_no_client []) = 1"
  proof -
    have parsed: "flag_Parse scenario_no_client CommandLine [] = Inr (\<lambda>name. None)"
      by (simp add: scenario_no_client_def scenario_A_def example_env_def go_flag_Parse_def)
    have loaded: "fst (loadConfig scenario_no_client (configPath (\<lambda>name. None))) =
        Inr example_config"
      by (simp add: scenario_no_client_def scenario_A_def configPath_default loadConfig_def
          example_env_def)
    have failed: "cdn_NewClient scenario_no_client
        \<lparr>cred_SecretId = SecretID (TencentCloud example_config),
         cred_SecretKey = SecretKey (TencentCloud example_config)\<rparr>
        (Region (TencentCloud example_config))
        \<lparr>HttpProfile_Endpoint = ''cdn.tencentcloudapi.com''\<rparr> =
        ((\<lparr>cred_SecretId = ''AKID'', cred_SecretKey = ''KEY''\<rparr>, ''ap-guangzhou'',
          \<lparr>HttpProfile_Endpoint = ''cdn.tencentcloudapi.com''\<rparr>),
         Some (ErrorString ''invalid client profile''))"
      by (simp add: scenario_no_client_def example_config_def)
    from C5_one_purge_call_when_client_built
      [where env = scenario_no_client and args = "[]" and actual = "\<lambda>name. None"
        and c = example_config and e = "ErrorString ''invalid client profile''"
        and client = "(\<lparr>cred_SecretId = ''AKID'', cred_SecretKey = ''KEY''\<rparr>,
          ''ap-guangzhou'', \<lparr>HttpProfile_Endpoint = ''cdn.tencentcloudapi.com''\<rparr>)",
        THEN conjunct2, THEN conjunct2]
      parsed loaded fields failed
    show ?thesis by simp
  qed
  from a n show ?thesis by simp
qed

text \<open>
  The claim as worded, that every valid configuration leads to exactly one purge call,
  does not hold of every run: in the world where \<^verbatim>\<open>cdn.NewClient\<close> returns an error
  the configuration of scenario A is loaded and valid, and the run ends with exit status
  1 without any network operation.
\<close>

theorem C5_counterexample:
  "SecretID (TencentCloud example_config) \<noteq> []
   \<and> SecretKey (TencentCloud example_config) \<noteq> []
   \<and> Paths (PurgeConfig example_config) \<noteq> []
   \<and> FlushType (PurgeConfig example_config) \<noteq> []
   \<and> validateConfig example_config = None
   \<and> fst (loadConfig scenario_no_client ''config.yaml'') = Inr example_config
   \<and> network_calls (calls (main scenario_no_client [])) = []
   \<and> exit_status (main scenario_no_client []) = 1
   \<and> stdout (main scenario_no_client []) =
       ''Error creating CDN client: invalid client profile'' @ newline"
  by (simp add: main_def purge_def loadConfig_def validateConfig_def network_calls_def
      scenario_no_client_def scenario_A_def example_env_def example_config_def
      go_flag_Parse_def configPath_def flag_c_def Let_def NewCredential_def clientProfile_def)

text \<open>
  Claim C6. When the purge call returns an error, the exit status is 1. If a
  \<^verbatim>\<open>TencentCloudSDKError\<close> stands in the error's chain (in particular when the error is
  one), the output is \<^verbatim>\<open>API error returned: \<close> followed by the error's text, unchanged;
  any other error is printed after \<^verbatim>\<open>Unexpected error: \<close> instead, so the prefix of the
  output tells the two branches apart.
\<close>

theorem C6_remote_error_branches:
  assumes parsed: "flag_Parse env CommandLine args = Inr actual"
    and loaded: "fst (loadConfig env (configPath actual)) = Inr c"
    and valid: "validateConfig c = None"
    and built: "cdn_NewClient env
        (NewCredential (SecretID (TencentCloud c)) (SecretKey (TencentCloud c)))
        (Region (TencentCloud c)) clientProfile = (client, None)"
    and failed: "client_PurgePathCache env client (buildRequest c) = (response, Some e)"
  shows "exit_status (main env args) = 1
     \<and> (chain_has_sdk_error e \<longrightarrow>
          stdout (main env args) = ''API error returned: '' @ Error e @ newline)
     \<and> (\<not> chain_has_sdk_error e \<longrightarrow>
          stdout (main env args) = ''Unexpected error: '' @ Error e @ newline)
     \<and> (e = TencentCloudSDKError code message requestId text \<longrightarrow>
          stdout (main env args) = ''API error returned: '' @ text @ newline)
     \<and> chain_has_sdk_error e = (take 20 (stdout (main env args)) = ''API error returned: '')
     \<and> (\<not> chain_has_sdk_error e) = (take 18 (stdout (main env args)) = ''Unexpected error: '')"
proof -
  have m: "main env args = purge env c (snd (loadConfig env (configPath actual)))"
    by (rule main_purge [OF parsed loaded valid])
  show ?thesis
    by (auto simp: m purge_sent [OF built failed])
qed

theorem C6_witness:
  "exit_status (main scenario_C []) = 1
   \<and> stdout (main scenario_C []) =
       ''API error returned: [TencentCloudSDKError] Code=AuthFailure, Message=signature check failed, RequestId=r-2'' @ newline
   \<and> exit_status (main scenario_transport []) = 1
   \<and> stdout (main scenario_transport []) = ''Unexpected error: dial tcp: i/o timeout'' @ newline"
proof -
  have c: "exit_status (main scenario_C []) = 1 \<and>
      stdout (main scenario_C []) = ''API error returned: '' @ Error auth_failure @ newline"
  proof -
    have parsed: "flag_Parse scenario_C CommandLine [] = Inr (\<lambda>name. None)"
      by (simp add: scenario_C_def example_parse_nothing)
    have loaded: "fst (loadConfig scenario_C (configPath (\<lambda>name. None))) = Inr example_config"
      by (simp add: scenario_C_def configPath_default example_loadConfig)
    have built: "cdn_NewClient scenario_C
        (NewCredential (SecretID (TencentCloud example_config))
           (SecretKey (TencentCloud example_config)))
        (Region (TencentCloud example_config)) clientProfile =
        ((\<lparr>cred_SecretId = ''AKID'', cred_SecretKey = ''KEY''\<rparr>,
          Region (TencentCloud example_config), clientProfile), None)"
      by (simp add: scenario_C_def example_NewClient example_credential)
    have failed: "client_PurgePathCache scenario_C
        (\<lparr>cred_SecretId = ''AKID'', cred_SecretKey = ''KEY''\<rparr>,
         Region (TencentCloud example_config), clientProfile)
        (buildRequest example_config) = ([], Some auth_failure)"
      by (simp add: scenario_C_def example_PurgePathCache)
    from C6_remote_error_branches [OF parsed loaded example_config_valid built failed]
    show ?thesis by (simp add: auth_failure_def)
  qed
  have t: "exit_status (main scenario_transport []) = 1 \<and>
      stdout (main scenario_transport []) =
        ''Unexpected error: '' @ Error transport_failure @ newline"
  proof -
    have parsed: "flag_Parse scenario_transport CommandLine [] = Inr (\<lambda>name. None)"
      by (simp add: scenario_transport_def example_parse_nothing)
    have loaded: "fst (loadConfig scenario_transport (configPath (\<lambda>name. None))) =
        Inr example_config"
      by (simp add: scenario_transport_def configPath_default example_loadConfig)
    have built: "cdn_NewClient scenario_transport
        (NewCredential (SecretID (TencentCloud example_config))
           (SecretKey (TencentCloud example_config)))
        (Region (TencentCloud example_config)) clientProfile =
        ((\<lparr>cred_SecretId = ''AKID'', cred_SecretKey = ''KEY''\<rparr>,
          Region (TencentCloud example_config), clientProfile), None)"
      by (simp add: scenario_transport_def example_NewClient example_credential)
    have failed: "client_PurgePathCache scenario_transport
        (\<lparr>cred_SecretId = ''AKID'', cred_SecretKey = ''KEY''\<rparr>,
         Region (TencentCloud example_config), clientProfile)
        (buildRequest example_config) = ([], Some transport_failure)"
      by (simp add: scenario_transport_def example_PurgePathCache)
    from C6_remote_error_branches [OF parsed loaded example_config_valid built failed]
    show ?thesis by (simp add: transport_failure_def)
  qed
  from c t show ?thesis
    by (simp add: auth_failure_def transport_failure_def)
qed

subsection \<open>Exit status\<close>

text \<open>
  Claim C7, as the program has it. Once \<^verbatim>\<open>flag.Parse\<close> has returned, the exit status
  is 0 exactly when the whole flow succeeds, and 1 for every failure: a configuration that
  cannot be loaded (missing, unreadable or undecodable), a validation error, a client that
  cannot be built, a structured remote error and any other error of the call; each
  failure has its own line of output. When \<^verbatim>\<open>flag.Parse\<close> ends the process itself, the
  exit status is the one the flag package chose, and nothing of the flow has run.
\<close>

theorem C7_exit_status_after_parsing:
  "(flag_Parse env CommandLine args = Inl status \<longrightarrow>
      exit_status (main env args) = status \<and> calls (main env args) = [] \<and>
      \<not> flow_succeeds env args)
   \<and> (flag_Parse env CommandLine args = Inr actual \<longrightarrow>
      (exit_status (main env args) = 0) = flow_succeeds env args
      \<and> (\<not> flow_succeeds env args \<longrightarrow> exit_status (main env args) = 1)
      \<and> (fst (loadConfig env (configPath actual)) = Inl err \<longrightarrow>
           exit_status (main env args) = 1 \<and>
           stdout (main env args) = ''Error loading configuration: '' @ Error err @ newline)
      \<and> (fst (loadConfig env (configPath actual)) = Inr c \<and> validateConfig c = Some e \<longrightarrow>
           exit_status (main env args) = 1 \<and>
           stdout (main env args) =
             ''Configuration validation failed: '' @ Error e @ newline)
      \<and> (fst (loadConfig env (configPath actual)) = Inr c \<and> validateConfig c = None \<and>
         cdn_NewClient env
           (NewCredential (SecretID (TencentCloud c)) (SecretKey (TencentCloud c)))
           (Region (TencentCloud c)) clientProfile = (client, Some e) \<longrightarrow>
           exit_status (main env args) = 1 \<and>
           stdout (main env args) = ''Error creating CDN client: '' @ Error e @ newline)
      \<and> (fst (loadConfig env (configPath actual)) = Inr c \<and> validateConfig c = None \<and>
         cdn_NewClient env
           (NewCredential (SecretID (TencentCloud c)) (SecretKey (TencentCloud c)))
           (Region (TencentCloud c)) clientProfile = (client, None) \<and>
         client_PurgePathCache env client (buildRequest c) = (response, Some e) \<longrightarrow>
           exit_status (main env args) = 1 \<and>
           stdout (main env args) =
             (if chain_has_sdk_error e then ''API error returned: ''
              else ''Unexpected error: '') @ Error e @ newline))"
proof (intro conjI impI)
  assume "flag_Parse env CommandLine args = Inl status"
  then show "exit_status (main env args) = status" "calls (main env args) = []"
    "\<not> flow_succeeds env args"
    by (simp_all add: main_flag_exit flow_succeeds_flag_exit)
next
  assume parsed: "flag_Parse env CommandLine args = Inr actual"
  show "(exit_status (main env args) = 0) = flow_succeeds env args"
    by (simp add: main_exit_status [OF parsed])
  {
    assume "\<not> flow_succeeds env args"
    then show "exit_status (main env args) = 1"
      by (simp add: main_exit_status [OF parsed])
  }
  {
    assume "fst (loadConfig env (configPath actual)) = Inl err"
    then show "exit_status (main env args) = 1"
      "stdout (main env args) = ''Error loading configuration: '' @ Error err @ newline"
      by (simp_all add: main_load_error [OF parsed])
  }
  {
    assume "fst (loadConfig env (configPath actual)) = Inr c \<and> validateConfig c = Some e"
    then show "exit_status (main env args) = 1"
      "stdout (main env args) = ''Configuration validation failed: '' @ Error e @ newline"
      by (simp_all add: main_validation_error [OF parsed])
  }
  {
    assume h: "fst (loadConfig env (configPath actual)) = Inr c \<and> validateConfig c = None \<and>
         cdn_NewClient env
           (NewCredential (SecretID (TencentCloud c)) (SecretKey (TencentCloud c)))
           (Region (TencentCloud c)) clientProfile = (client, Some e)"
    then have m: "main env args = purge env c (snd (loadConfig env (configPath actual)))"
      using main_purge [OF parsed] by blast
    from h show "exit_status (main env args) = 1"
      "stdout (main env args) = ''Error creating CDN client: '' @ Error e @ newline"
      by (simp_all add: m purge_client_error)
  }
  {
    assume h: "fst (loadConfig env (configPath actual)) = Inr c \<and> validateConfig c = None \<and>
         cdn_NewClient env
           (NewCredential (SecretID (TencentCloud c)) (SecretKey (TencentCloud c)))
           (Region (TencentCloud c)) clientProfile = (client, None) \<and>
         client_PurgePathCache env client (buildRequest c) = (response, Some e)"
    then have m: "main env args = purge env c (snd (loadConfig env (configPath actual)))"
      using main_purge [OF parsed] by blast
    from h show "exit_status (main env args) = 1"
      "stdout (main env args) =
             (if chain_has_sdk_error e then ''API error returned: ''
              else ''Unexpected error: '') @ Error e @ newline"
      by (simp_all add: m purge_sent)
  }
qed

theorem C7_witness:
  "exit_status (main scenario_A []) = 0 \<and> flow_succeeds scenario_A []
   \<and> exit_status (main scenario_A [''-c'', ''nope.yaml'']) = 1
   \<and> stdout (main scenario_A [''-c'', ''nope.yaml'']) =
       ''Error loading configuration: config file does not exist: nope.yaml'' @ newline
   \<and> exit_status (main scenario_B []) = 1
   \<and> exit_status (main scenario_no_client []) = 1
   \<and> stdout (main scenario_no_client []) =
       ''Error creating CDN client: invalid client profile'' @ newline
   \<and> exit_status (main scenario_C []) = 1
   \<and> exit_status (main scenario_A [''-c'']) = 2"
proof -
  have a: "exit_status (main scenario_A []) = 0 \<and> flow_succeeds scenario_A []"
  proof -
    have parsed: "flag_Parse scenario_A CommandLine [] = Inr (\<lambda>name. None)"
      by (simp add: scenario_A_def example_parse_nothing)
    have ok: "flow_succeeds scenario_A []"
      by (simp add: flow_succeeds_def parsed configPath_default)
        (simp add: scenario_A_def example_loadConfig example_config_valid example_NewClient
          example_PurgePathCache)
    from C7_exit_status_after_parsing
      [where env = scenario_A and args = "[]" and actual = "\<lambda>name. None"] parsed ok
    show ?thesis by simp
  qed
  have n: "exit_status (main scenario_A [''-c'', ''nope.yaml'']) = 1 \<and>
      stdout (main scenario_A [''-c'', ''nope.yaml'']) =
        ''Error loading configuration: config file does not exist: nope.yaml'' @ newline"
  proof -
    have parsed: "flag_Parse scenario_A CommandLine [''-c'', ''nope.yaml''] =
        Inr ((\<lambda>name. None)(''c'' \<mapsto> ''nope.yaml''))"
      by (simp add: scenario_A_def example_parse_c)
    have failed: "fst (loadConfig scenario_A
        (configPath ((\<lambda>name. None)(''c'' \<mapsto> ''nope.yaml'')))) =
        Inl (ErrorString ''config file does not exist: nope.yaml'')"
      by (simp add: configPath_given loadConfig_def scenario_A_def example_env_def)
    from C7_exit_status_after_parsing
      [where env = scenario_A and args = "[''-c'', ''nope.yaml'']"
        and actual = "(\<lambda>name. None)(''c'' \<mapsto> ''nope.yaml'')"
        and err = "ErrorString ''config file does not exist: nope.yaml''"] parsed failed
    show ?thesis by simp
  qed
  have b: "exit_status (main scenario_B []) = 1"
  proof -
    have parsed: "flag_Parse scenario_B CommandLine [] = Inr (\<lambda>name. None)"
      by (simp add: scenario_B_def example_parse_nothing)
    have loaded: "fst (loadConfig scenario_B (configPath (\<lambda>name. None))) =
        Inr config_without_secret_id"
      by (simp add: scenario_B_def configPath_default example_loadConfig)
    have v: "validateConfig config_without_secret_id =
        Some (ErrorString ''secret_id is required in configuration'')"
      by (simp add: validateConfig_def config_without_secret_id_def)
    from C7_exit_status_after_parsing
      [where env = scenario_B and args = "[]" and actual = "\<lambda>name. None"
        and c = config_without_secret_id
        and e = "ErrorString ''secret_id is required in configuration''"] parsed loaded v
    show ?thesis by simp
  qed
  have k: "exit_status (main scenario_no_client []) = 1 \<and>
      stdout (main scenario_no_client []) =
        ''Error creating CDN client: invalid client profile'' @ newline"
  proof -
    have parsed: "flag_Parse scenario_no_client CommandLine [] = Inr (\<lambda>name. None)"
      by (simp add: scenario_no_client_def scenario_A_def example_env_def go_flag_Parse_def)
    have loaded: "fst (loadConfig scenario_no_client (configPath (\<lambda>name. None))) =
        Inr example_config"
      by (simp add: scenario_no_client_def scenario_A_def configPath_default loadConfig_def
          example_env_def)
    have built: "cdn_NewClient scenario_no_client
        (NewCredential (SecretID (TencentCloud example_config))
           (SecretKey (TencentCloud example_config)))
        (Region (TencentCloud example_config)) clientProfile =
        ((\<lparr>cred_SecretId = ''AKID'', cred_SecretKey = ''KEY''\<rparr>,
          Region (TencentCloud example_config), clientProfile),
         Some (ErrorString ''invalid client profile''))"
      by (simp add: scenario_no_client_def example_credential)
    from C7_exit_status_after_parsing
      [where env = scenario_no_client and args = "[]" and actual = "\<lambda>name. None"
        and c = example_config and e = "ErrorString ''invalid client profile''"
        and client = "(\<lparr>cred_SecretId = ''AKID'', cred_SecretKey = ''KEY''\<rparr>,
          Region (TencentCloud example_config), clientProfile)"]
      parsed loaded built example_config_valid
    show ?thesis by simp
  qed
  have c: "exit_status (main scenario_C []) = 1"
  proof -
    have parsed: "flag_Parse scenario_C CommandLine [] = Inr (\<lambda>name. None)"
      by (simp add: scenario_C_def example_parse_nothing)
    have loaded: "fst (loadConfig scenario_C (configPath (\<lambda>name. None))) = Inr example_config"
      by (simp add: scenario_C_def configPath_default example_loadConfig)
    have built: "cdn_NewClient scenario_C
        (NewCredential (SecretID (TencentCloud example_config))
           (SecretKey (TencentCloud example_config)))
        (Region (TencentCloud example_config)) clientProfile =
        ((\<lparr>cred_SecretId = ''AKID'', cred_SecretKey = ''KEY''\<rparr>,
          Region (TencentCloud example_config), clientProfile), None)"
      by (simp add: scenario_C_def example_NewClient example_credential)
    have failed: "client_PurgePathCache scenario_C
        (\<lparr>cred_SecretId = ''AKID'', cred_SecretKey = ''KEY''\<rparr>,
         Region (TencentCloud example_config), clientProfile)
        (buildRequest example_config) = ([], Some auth_failure)"
      by (simp add: scenario_C_def example_PurgePathCache)
    from C7_exit_status_after_parsing
      [where env = scenario_C and args = "[]" and actual = "\<lambda>name. None"
        and c = example_config and e = auth_failure and response = "[]"
        and client = "(\<lparr>cred_SecretId = ''AKID'', cred_SecretKey = ''KEY''\<rparr>,
          Region (TencentCloud example_config), clientProfile)"]
      parsed loaded built failed example_config_valid
    show ?thesis by simp
  qed
  have x: "exit_status (main scenario_A [''-c'']) = 2"
  proof -
    have ended: "flag_Parse scenario_A CommandLine [''-c''] = Inl 2"
      by (simp add: scenario_A_def example_env_def go_flag_Parse_def CommandLine_def
          flag_c_def split_flag_def)
    from C7_exit_status_after_parsing
      [where env = scenario_A and args = "[''-c'']" and status = 2] ended
    show ?thesis by simp
  qed
  from a n b k c x show ?thesis by simp
qed

text \<open>
  The claim as worded does not hold of every run: on the command line \<^verbatim>\<open>-x\<close> (an
  undefined flag) the flow fails to start and the exit status is 2, not 1; on
  \<^verbatim>\<open>-h\<close> the exit status is 0 although no configuration was loaded and no purge
  call succeeded.
\<close>

theorem C7_counterexample:
  "\<not> flow_succeeds scenario_A [''-x'']
   \<and> exit_status (main scenario_A [''-x'']) = 2
   \<and> calls (main scenario_A [''-x'']) = []
   \<and> \<not> flow_succeeds scenario_A [''-h'']
   \<and> exit_status (main scenario_A [''-h'']) = 0
   \<and> calls (main scenario_A [''-h'']) = []"
  by (simp add: main_def flow_succeeds_def scenario_A_def example_env_def go_flag_Parse_def
      CommandLine_def flag_c_def split_flag_def)

subsection \<open>The command line\<close>

lemma loadConfig_cases:
  "(os_IsNotExist (os_Stat env p) \<longrightarrow>
      loadConfig env p =
        (Inl (ErrorString (''config file does not exist: '' @ p)), [Call_os_Stat p]))
   \<and> (\<not> os_IsNotExist (os_Stat env p) \<and> snd (os_ReadFile env p) = Some e \<longrightarrow>
      loadConfig env p =
        (Inl (ErrorString (''failed to read config file: '' @ Error e)),
         [Call_os_Stat p, Call_os_ReadFile p]))
   \<and> (\<not> os_IsNotExist (os_Stat env p) \<and> os_ReadFile env p = (data, None) \<and>
      snd (yaml_Unmarshal env data zero_Config) = Some e \<longrightarrow>
      loadConfig env p =
        (Inl (ErrorString (''failed to parse YAML config: '' @ Error e)),
         [Call_os_Stat p, Call_os_ReadFile p]))
   \<and> (\<not> os_IsNotExist (os_Stat env p) \<and> os_ReadFile env p = (data, None) \<and>
      yaml_Unmarshal env data zero_Config = (c, None) \<longrightarrow>
      loadConfig env p = (Inr c, [Call_os_Stat p, Call_os_ReadFile p]))"
  by (auto simp: loadConfig_def Let_def split: prod.splits)

lemma purge_first_call:
  "take (Suc (length log)) (calls (purge env c log)) =
     log @ [Call_cdn_NewClient
       \<lparr>cred_SecretId = SecretID (TencentCloud c), cred_SecretKey = SecretKey (TencentCloud c)\<rparr>
       (Region (TencentCloud c)) \<lparr>HttpProfile_Endpoint = ''cdn.tencentcloudapi.com''\<rparr>]"
proof -
  obtain client cerr where nc:
    "cdn_NewClient env (NewCredential (SecretID (TencentCloud c)) (SecretKey (TencentCloud c)))
       (Region (TencentCloud c)) clientProfile = (client, cerr)"
    by (cases "cdn_NewClient env
       (NewCredential (SecretID (TencentCloud c)) (SecretKey (TencentCloud c)))
       (Region (TencentCloud c)) clientProfile")
  show ?thesis
  proof (cases cerr)
    case (Some e)
    with nc show ?thesis
      by (simp add: purge_client_error NewCredential_def clientProfile_def)
  next
    case None
    obtain response err where pc:
      "client_PurgePathCache env client (buildRequest c) = (response, err)"
      by (cases "client_PurgePathCache env client (buildRequest c)")
    from nc None pc show ?thesis
      by (simp add: purge_sent NewCredential_def clientProfile_def)
  qed
qed

lemma main_from_path:
  assumes parsed: "flag_Parse env CommandLine args = Inr actual"
    and path: "configPath actual = P"
  shows "(os_IsNotExist (os_Stat env P) \<longrightarrow>
        main env args =
          \<lparr>exit_status = 1,
           stdout = ''Error loading configuration: config file does not exist: '' @ P @ newline,
           calls = [Call_os_Stat P]\<rparr>)
     \<and> (\<not> os_IsNotExist (os_Stat env P) \<and> snd (os_ReadFile env P) = Some e \<longrightarrow>
        main env args =
          \<lparr>exit_status = 1,
           stdout = ''Error loading configuration: failed to read config file: '' @
                    Error e @ newline,
           calls = [Call_os_Stat P, Call_os_ReadFile P]\<rparr>)
     \<and> (\<not> os_IsNotExist (os_Stat env P) \<and> os_ReadFile env P = (data, None) \<and>
        snd (yaml_Unmarshal env data zero_Config) = Some e \<longrightarrow>
        main env args =
          \<lparr>exit_status = 1,
           stdout = ''Error loading configuration: failed to parse YAML config: '' @
                    Error e @ newline,
           calls = [Call_os_Stat P, Call_os_ReadFile P]\<rparr>)
     \<and> (\<not> os_IsNotExist (os_Stat env P) \<and> os_ReadFile env P = (data, None) \<and>
        yaml_Unmarshal env data zero_Config = (c, None) \<longrightarrow>
        (validateConfig c = Some e \<longrightarrow>
           main env args =
             \<lparr>exit_status = 1,
              stdout = ''Configuration validation failed: '' @ Error e @ newline,
              calls = [Call_os_Stat P, Call_os_ReadFile P]\<rparr>)
        \<and> (validateConfig c = None \<longrightarrow>
           main env args = purge env c [Call_os_Stat P, Call_os_ReadFile P] \<and>
           take 3 (calls (main env args)) =
             [Call_os_Stat P, Call_os_ReadFile P,
              Call_cdn_NewClient
                \<lparr>cred_SecretId = SecretID (TencentCloud c),
                 cred_SecretKey = SecretKey (TencentCloud c)\<rparr>
                (Region (TencentCloud c))
                \<lparr>HttpProfile_Endpoint = ''cdn.tencentcloudapi.com''\<rparr>]))"
proof (intro conjI impI)
  assume "os_IsNotExist (os_Stat env P)"
  then have l: "loadConfig env P =
      (Inl (ErrorString (''config file does not exist: '' @ P)), [Call_os_Stat P])"
    using loadConfig_cases [of env P] by blast
  show "main env args =
          \<lparr>exit_status = 1,
           stdout = ''Error loading configuration: config file does not exist: '' @ P @ newline,
           calls = [Call_os_Stat P]\<rparr>"
    using main_load_error [OF parsed, of "ErrorString (''config file does not exist: '' @ P)"]
    by (simp add: path l)
next
  assume "\<not> os_IsNotExist (os_Stat env P) \<and> snd (os_ReadFile env P) = Some e"
  then have l: "loadConfig env P =
      (Inl (ErrorString (''failed to read config file: '' @ Error e)),
       [Call_os_Stat P, Call_os_ReadFile P])"
    using loadConfig_cases [of env P e] by blast
  show "main env args =
          \<lparr>exit_status = 1,
           stdout = ''Error loading configuration: failed to read config file: '' @
                    Error e @ newline,
           calls = [Call_os_Stat P, Call_os_ReadFile P]\<rparr>"
    using main_load_error [OF parsed, of "ErrorString (''failed to read config file: '' @ Error e)"]
    by (simp add: path l)
next
  assume "\<not> os_IsNotExist (os_Stat env P) \<and> os_ReadFile env P = (data, None) \<and>
        snd (yaml_Unmarshal env data zero_Config) = Some e"
  then have l: "loadConfig env P =
      (Inl (ErrorString (''failed to parse YAML config: '' @ Error e)),
       [Call_os_Stat P, Call_os_ReadFile P])"
    using loadConfig_cases [of env P _ data] by blast
  show "main env args =
          \<lparr>exit_status = 1,
           stdout = ''Error loading configuration: failed to parse YAML config: '' @
                    Error e @ newline,
           calls = [Call_os_Stat P, Call_os_ReadFile P]\<rparr>"
    using main_load_error [OF parsed, of "ErrorString (''failed to parse YAML config: '' @ Error e)"]
    by (simp add: path l)
next
  assume h: "\<not> os_IsNotExist (os_Stat env P) \<and> os_ReadFile env P = (data, None) \<and>
        yaml_Unmarshal env data zero_Config = (c, None)"
  then have l: "loadConfig env P = (Inr c, [Call_os_Stat P, Call_os_ReadFile P])"
    using loadConfig_cases [of env P _ data c] by blast
  then have loaded: "fst (loadConfig env (configPath actual)) = Inr c"
    by (simp add: path)
  {
    assume v: "validateConfig c = Some e"
    show "main env args =
             \<lparr>exit_status = 1,
              stdout = ''Configuration validation failed: '' @ Error e @ newline,
              calls = [Call_os_Stat P, Call_os_ReadFile P]\<rparr>"
      using main_validation_error [OF parsed loaded v] by (simp add: path l)
  }
  {
    assume v: "validateConfig c = None"
    show m: "main env args = purge env c [Call_os_Stat P, Call_os_ReadFile P]"
      using main_purge [OF parsed loaded v] by (simp add: path l)
    show "take 3 (calls (main env args)) =
             [Call_os_Stat P, Call_os_ReadFile P,
              Call_cdn_NewClient
                \<lparr>cred_SecretId = SecretID (TencentCloud c),
                 cred_SecretKey = SecretKey (TencentCloud c)\<rparr>
                (Region (TencentCloud c))
                \<lparr>HttpProfile_Endpoint = ''cdn.tencentcloudapi.com''\<rparr>]"
      using purge_first_call [of "[Call_os_Stat P, Call_os_ReadFile P]" env c]
      by (simp add: m eval_nat_numeral)
  }
qed

lemma CommandLine_explicit:
  "CommandLine =
     [\<lparr>Name = ''c'', DefValue = ''config.yaml'', Usage = ''Path to the configuration file''\<rparr>]"
  by (simp add: CommandLine_def flag_c_def)

text \<open>
  Claim C8. \<^verbatim>\<open>main\<close> hands \<^verbatim>\<open>flag.Parse\<close> exactly one registered flag, \<^verbatim>\<open>c\<close>,
  with the default value \<^verbatim>\<open>config.yaml\<close>. When parsing returns and the command line did
  not give \<^verbatim>\<open>-c\<close>, the configuration is loaded from \<^verbatim>\<open>config.yaml\<close>; when it gave
  \<^verbatim>\<open>-c\<close>, from the path given. Loaded from a path means: the run starts with
  \<^verbatim>\<open>os.Stat\<close> on that path and touches no other path; if the path does not exist, if
  the file cannot be read or if its text does not decode, the run ends with exit status 1
  and the loading error for that path; and if the text of that file decodes to a
  configuration, it is this configuration that is validated and, when valid, whose
  credentials and region go to the client and whose purge is run. When
  \<^verbatim>\<open>flag.Parse\<close> ends the process (as on a flag other than \<^verbatim>\<open>-c\<close>), nothing is
  loaded.
\<close>

theorem C8_flag_c_default:
  "(flag_Parse env
       [\<lparr>Name = ''c'', DefValue = ''config.yaml'', Usage = ''Path to the configuration file''\<rparr>]
       args = Inr actual \<and>
    (actual ''c'' = None \<and> P = ''config.yaml'' \<or> actual ''c'' = Some P) \<longrightarrow>
      take 1 (calls (main env args)) = [Call_os_Stat P]
      \<and> set (List.map_filter os_path (calls (main env args))) = {P}
      \<and> (os_IsNotExist (os_Stat env P) \<longrightarrow>
          main env args =
            \<lparr>exit_status = 1,
             stdout = ''Error loading configuration: config file does not exist: '' @ P @
                      newline,
             calls = [Call_os_Stat P]\<rparr>)
      \<and> (\<not> os_IsNotExist (os_Stat env P) \<and> snd (os_ReadFile env P) = Some e \<longrightarrow>
          main env args =
            \<lparr>exit_status = 1,
             stdout = ''Error loading configuration: failed to read config file: '' @
                      Error e @ newline,
             calls = [Call_os_Stat P, Call_os_ReadFile P]\<rparr>)
      \<and> (\<not> os_IsNotExist (os_Stat env P) \<and> os_ReadFile env P = (data, None) \<and>
          snd (yaml_Unmarshal env data zero_Config) = Some e \<longrightarrow>
          main env args =
            \<lparr>exit_status = 1,
             stdout = ''Error loading configuration: failed to parse YAML config: '' @
                      Error e @ newline,
             calls = [Call_os_Stat P, Call_os_ReadFile P]\<rparr>)
      \<and> (\<not> os_IsNotExist (os_Stat env P) \<and> os_ReadFile env P = (data, None) \<and>
          yaml_Unmarshal env data zero_Config = (c, None) \<longrightarrow>
          (validateConfig c = Some e \<longrightarrow>
             main env args =
               \<lparr>exit_status = 1,
                stdout = ''Configuration validation failed: '' @ Error e @ newline,
                calls = [Call_os_Stat P, Call_os_ReadFile P]\<rparr>)
          \<and> (validateConfig c = None \<longrightarrow>
             main env args = purge env c [Call_os_Stat P, Call_os_ReadFile P] \<and>
             take 3 (calls (main env args)) =
               [Call_os_Stat P, Call_os_ReadFile P,
                Call_cdn_NewClient
                  \<lparr>cred_SecretId = SecretID (TencentCloud c),
                   cred_SecretKey = SecretKey (TencentCloud c)\<rparr>
                  (Region (TencentCloud c))
                  \<lparr>HttpProfile_Endpoint = ''cdn.tencentcloudapi.com''\<rparr>])))
   \<and> (flag_Parse env
       [\<lparr>Name = ''c'', DefValue = ''config.yaml'', Usage = ''Path to the configuration file''\<rparr>]
       args = Inl status \<longrightarrow>
      main env args = \<lparr>exit_status = status, stdout = [], calls = []\<rparr>)"
proof (rule conjI)
  show "flag_Parse env
       [\<lparr>Name = ''c'', DefValue = ''config.yaml'', Usage = ''Path to the configuration file''\<rparr>]
       args = Inl status \<longrightarrow>
      main env args = \<lparr>exit_status = status, stdout = [], calls = []\<rparr>"
    using main_flag_exit [of env args status] by (simp add: CommandLine_explicit)
next
  show "flag_Parse env
       [\<lparr>Name = ''c'', DefValue = ''config.yaml'', Usage = ''Path to the configuration file''\<rparr>]
       args = Inr actual \<and>
    (actual ''c'' = None \<and> P = ''config.yaml'' \<or> actual ''c'' = Some P) \<longrightarrow>
      take 1 (calls (main env args)) = [Call_os_Stat P]
      \<and> set (List.map_filter os_path (calls (main env args))) = {P}
      \<and> (os_IsNotExist (os_Stat env P) \<longrightarrow>
          main env args =
            \<lparr>exit_status = 1,
             stdout = ''Error loading configuration: config file does not exist: '' @ P @
                      newline,
             calls = [Call_os_Stat P]\<rparr>)
      \<and> (\<not> os_IsNotExist (os_Stat env P) \<and> snd (os_ReadFile env P) = Some e \<longrightarrow>
          main env args =
            \<lparr>exit_status = 1,
             stdout = ''Error loading configuration: failed to read config file: '' @
                      Error e @ newline,
             calls = [Call_os_Stat P, Call_os_ReadFile P]\<rparr>)
      \<and> (\<not> os_IsNotExist (os_Stat env P) \<and> os_ReadFile env P = (data, None) \<and>
          snd (yaml_Unmarshal env data zero_Config) = Some e \<longrightarrow>
          main env args =
            \<lparr>exit_status = 1,
             stdout = ''Error loading configuration: failed to parse YAML config: '' @
                      Error e @ newline,
             calls = [Call_os_Stat P, Call_os_ReadFile P]\<rparr>)
      \<and> (\<not> os_IsNotExist (os_Stat env P) \<and> os_ReadFile env P = (data, None) \<and>
          yaml_Unmarshal env data zero_Config = (c, None) \<longrightarrow>
          (validateConfig c = Some e \<longrightarrow>
             main env args =
               \<lparr>exit_status = 1,
                stdout = ''Configuration validation failed: '' @ Error e @ newline,
                calls = [Call_os_Stat P, Call_os_ReadFile P]\<rparr>)
          \<and> (validateConfig c = None \<longrightarrow>
             main env args = purge env c [Call_os_Stat P, Call_os_ReadFile P] \<and>
             take 3 (calls (main env args)) =
               [Call_os_Stat P, Call_os_ReadFile P,
                Call_cdn_NewClient
                  \<lparr>cred_SecretId = SecretID (TencentCloud c),
                   cred_SecretKey = SecretKey (TencentCloud c)\<rparr>
                  (Region (TencentCloud c))
                  \<lparr>HttpProfile_Endpoint = ''cdn.tencentcloudapi.com''\<rparr>]))"
  proof
    assume h: "flag_Parse env
       [\<lparr>Name = ''c'', DefValue = ''config.yaml'', Usage = ''Path to the configuration file''\<rparr>]
       args = Inr actual \<and>
      (actual ''c'' = None \<and> P = ''config.yaml'' \<or> actual ''c'' = Some P)"
    then have parsed: "flag_Parse env CommandLine args = Inr actual"
      by (simp add: CommandLine_explicit)
    from h have path: "configPath actual = P"
      by (auto simp: configPath_def flag_c_def)
    from main_loads_from [OF parsed] main_from_path [OF parsed path, of e data c]
    show "take 1 (calls (main env args)) = [Call_os_Stat P]
      \<and> set (List.map_filter os_path (calls (main env args))) = {P}
      \<and> (os_IsNotExist (os_Stat env P) \<longrightarrow>
          main env args =
            \<lparr>exit_status = 1,
             stdout = ''Error loading configuration: config file does not exist: '' @ P @
                      newline,
             calls = [Call_os_Stat P]\<rparr>)
      \<and> (\<not> os_IsNotExist (os_Stat env P) \<and> snd (os_ReadFile env P) = Some e \<longrightarrow>
          main env args =
            \<lparr>exit_status = 1,
             stdout = ''Error loading configuration: failed to read config file: '' @
                      Error e @ newline,
             calls = [Call_os_Stat P, Call_os_ReadFile P]\<rparr>)
      \<and> (\<not> os_IsNotExist (os_Stat env P) \<and> os_ReadFile env P = (data, None) \<and>
          snd (yaml_Unmarshal env data zero_Config) = Some e \<longrightarrow>
          main env args =
            \<lparr>exit_status = 1,
             stdout = ''Error loading configuration: failed to parse YAML config: '' @
                      Error e @ newline,
             calls = [Call_os_Stat P, Call_os_ReadFile P]\<rparr>)
      \<and> (\<not> os_IsNotExist (os_Stat env P) \<and> os_ReadFile env P = (data, None) \<and>
          yaml_Unmarshal env data zero_Config = (c, None) \<longrightarrow>
          (validateConfig c = Some e \<longrightarrow>
             main env args =
               \<lparr>exit_status = 1,
                stdout = ''Configuration validation failed: '' @ Error e @ newline,
                calls = [Call_os_Stat P, Call_os_ReadFile P]\<rparr>)
          \<and> (validateConfig c = None \<longrightarrow>
             main env args = purge env c [Call_os_Stat P, Call_os_ReadFile P] \<and>
             take 3 (calls (main env args)) =
               [Call_os_Stat P, Call_os_ReadFile P,
                Call_cdn_NewClient
                  \<lparr>cred_SecretId = SecretID (TencentCloud c),
                   cred_SecretKey = SecretKey (TencentCloud c)\<rparr>
                  (Region (TencentCloud c))
                  \<lparr>HttpProfile_Endpoint = ''cdn.tencentcloudapi.com''\<rparr>]))"
      by (simp only: path)
  qed
qed

theorem C8_witness:
  "take 3 (calls (main scenario_two_files [])) =
     [Call_os_Stat ''config.yaml'', Call_os_ReadFile ''config.yaml'',
      Call_cdn_NewClient \<lparr>cred_SecretId = ''AKID'', cred_SecretKey = ''KEY''\<rparr> ''ap-guangzhou''
        \<lparr>HttpProfile_Endpoint = ''cdn.tencentcloudapi.com''\<rparr>]
   \<and> set (List.map_filter os_path (calls (main scenario_two_files []))) = {''config.yaml''}
   \<and> main scenario_two_files [''-c'', ''other.yaml''] =
       \<lparr>exit_status = 1,
        stdout = ''Configuration validation failed: secret_id is required in configuration'' @
                 newline,
        calls = [Call_os_Stat ''other.yaml'', Call_os_ReadFile ''other.yaml'']\<rparr>
   \<and> main scenario_two_files [''-c'', ''nope.yaml''] =
       \<lparr>exit_status = 1,
        stdout = ''Error loading configuration: config file does not exist: nope.yaml'' @
                 newline,
        calls = [Call_os_Stat ''nope.yaml'']\<rparr>
   \<and> main scenario_two_files [''-d'', ''other.yaml''] =
       \<lparr>exit_status = 2, stdout = [], calls = []\<rparr>"
proof -
  have none: "flag_Parse scenario_two_files
      [\<lparr>Name = ''c'', DefValue = ''config.yaml'', Usage = ''Path to the configuration file''\<rparr>]
      [] = Inr (\<lambda>name. None)"
    by (simp add: scenario_two_files_def scenario_A_def example_env_def go_flag_Parse_def)
  have given: "flag_Parse scenario_two_files
      [\<lparr>Name = ''c'', DefValue = ''config.yaml'', Usage = ''Path to the configuration file''\<rparr>]
      [''-c'', p] = Inr ((\<lambda>name. None)(''c'' \<mapsto> p))" for p
    by (simp add: scenario_two_files_def scenario_A_def example_env_def go_flag_Parse_def
        split_flag_def)
  have undefined_flag: "flag_Parse scenario_two_files
      [\<lparr>Name = ''c'', DefValue = ''config.yaml'', Usage = ''Path to the configuration file''\<rparr>]
      [''-d'', ''other.yaml''] = Inl 2"
    by (simp add: scenario_two_files_def scenario_A_def example_env_def go_flag_Parse_def
        split_flag_def)
  have world:
    "\<not> os_IsNotExist (os_Stat scenario_two_files ''config.yaml'')"
    "os_ReadFile scenario_two_files ''config.yaml'' = (''tencent_cloud: ...'', None)"
    "yaml_Unmarshal scenario_two_files ''tencent_cloud: ...'' zero_Config =
       (example_config, None)"
    "\<not> os_IsNotExist (os_Stat scenario_two_files ''other.yaml'')"
    "os_ReadFile scenario_two_files ''other.yaml'' = (''purge_config: ...'', None)"
    "yaml_Unmarshal scenario_two_files ''purge_config: ...'' zero_Config =
       (config_without_secret_id, None)"
    "os_IsNotExist (os_Stat scenario_two_files ''nope.yaml'')"
    by (simp_all add: scenario_two_files_def scenario_A_def example_env_def)
  have v: "validateConfig config_without_secret_id =
      Some (ErrorString ''secret_id is required in configuration'')"
    by (simp add: validateConfig_def config_without_secret_id_def)
  have sel: "((\<lambda>name. None)(''c'' \<mapsto> p)) ''c'' = Some p" for p :: string
    by simp
  have a0: "take 3 (calls (main scenario_two_files [])) =
     [Call_os_Stat ''config.yaml'', Call_os_ReadFile ''config.yaml'',
      Call_cdn_NewClient
        \<lparr>cred_SecretId = SecretID (TencentCloud example_config),
         cred_SecretKey = SecretKey (TencentCloud example_config)\<rparr>
        (Region (TencentCloud example_config))
        \<lparr>HttpProfile_Endpoint = ''cdn.tencentcloudapi.com''\<rparr>]
   \<and> set (List.map_filter os_path (calls (main scenario_two_files []))) = {''config.yaml''}"
    using C8_flag_c_default
      [where env = scenario_two_files and args = "[]" and actual = "\<lambda>name. None"
        and P = "''config.yaml''" and data = "''tencent_cloud: ...''" and c = example_config,
        THEN conjunct1]
      none world(1-3) example_config_valid
    by blast
  then have a: "take 3 (calls (main scenario_two_files [])) =
     [Call_os_Stat ''config.yaml'', Call_os_ReadFile ''config.yaml'',
      Call_cdn_NewClient \<lparr>cred_SecretId = ''AKID'', cred_SecretKey = ''KEY''\<rparr> ''ap-guangzhou''
        \<lparr>HttpProfile_Endpoint = ''cdn.tencentcloudapi.com''\<rparr>]
   \<and> set (List.map_filter os_path (calls (main scenario_two_files []))) = {''config.yaml''}"
    by (simp add: example_config_def)
  have b: "main scenario_two_files [''-c'', ''other.yaml''] =
       \<lparr>exit_status = 1,
        stdout = ''Configuration validation failed: '' @
                 Error (ErrorString ''secret_id is required in configuration'') @ newline,
        calls = [Call_os_Stat ''other.yaml'', Call_os_ReadFile ''other.yaml'']\<rparr>"
    using C8_flag_c_default
      [where env = scenario_two_files and args = "[''-c'', ''other.yaml'']"
        and actual = "(\<lambda>name. None)(''c'' \<mapsto> ''other.yaml'')"
        and P = "''other.yaml''" and data = "''purge_config: ...''"
        and c = config_without_secret_id
        and e = "ErrorString ''secret_id is required in configuration''",
        THEN conjunct1]
      given [of "''other.yaml''"] sel [of "''other.yaml''"] world(4-6) v
    by blast
  have c: "main scenario_two_files [''-c'', ''nope.yaml''] =
       \<lparr>exit_status = 1,
        stdout = ''Error loading configuration: config file does not exist: '' @
                 ''nope.yaml'' @ newline,
        calls = [Call_os_Stat ''nope.yaml'']\<rparr>"
    using C8_flag_c_default
      [where env = scenario_two_files and args = "[''-c'', ''nope.yaml'']"
        and actual = "(\<lambda>name. None)(''c'' \<mapsto> ''nope.yaml'')"
        and P = "''nope.yaml''", THEN conjunct1]
      given [of "''nope.yaml''"] sel [of "''nope.yaml''"] world(7)
    by blast
  have d: "main scenario_two_files [''-d'', ''other.yaml''] =
       \<lparr>exit_status = 2, stdout = [], calls = []\<rparr>"
    using C8_flag_c_default
      [where env = scenario_two_files and args = "[''-d'', ''other.yaml'']" and status = 2,
        THEN conjunct2]
      undefined_flag
    by blast
  from a b c d show ?thesis by simp
qed

subsection \<open>What validation does not look at\<close>

text \<open>
  Claim C9. \<^verbatim>\<open>validateConfig\<close> never inspects the region: changing the region of a
  configuration does not change its result, so a configuration with the four required
  fields present is valid even when its region is the empty string; and in a run on a
  valid configuration the client is constructed once, with the configuration's region
  as it is (the empty string included).
\<close>

theorem C9_region_not_validated:
  "validateConfig (c\<lparr>TencentCloud := (TencentCloud c)\<lparr>Region := r\<rparr>\<rparr>) = validateConfig c
   \<and> (SecretID (TencentCloud c) \<noteq> [] \<and> SecretKey (TencentCloud c) \<noteq> [] \<and>
      Paths (PurgeConfig c) \<noteq> [] \<and> FlushType (PurgeConfig c) \<noteq> [] \<and>
      Region (TencentCloud c) = [] \<longrightarrow> validateConfig c = None)
   \<and> (flag_Parse env CommandLine args = Inr actual \<and>
      fst (loadConfig env (configPath actual)) = Inr c \<and> validateConfig c = None \<longrightarrow>
      List.map_filter client_region (calls (main env args)) = [Region (TencentCloud c)])"
proof (intro conjI impI)
  show "validateConfig (c\<lparr>TencentCloud := (TencentCloud c)\<lparr>Region := r\<rparr>\<rparr>) = validateConfig c"
    by (simp add: validateConfig_def)
  show "validateConfig c = None"
    if "SecretID (TencentCloud c) \<noteq> [] \<and> SecretKey (TencentCloud c) \<noteq> [] \<and>
      Paths (PurgeConfig c) \<noteq> [] \<and> FlushType (PurgeConfig c) \<noteq> [] \<and>
      Region (TencentCloud c) = []"
    using that by (simp add: validateConfig_def)
  show "List.map_filter client_region (calls (main env args)) = [Region (TencentCloud c)]"
    if "flag_Parse env CommandLine args = Inr actual \<and>
      fst (loadConfig env (configPath actual)) = Inr c \<and> validateConfig c = None"
    using that main_purge [of env args actual c]
    by (simp add: purge_regions loadConfig_no_client)
qed

theorem C9_witness:
  "validateConfig config_without_region = None
   \<and> List.map_filter client_region (calls (main scenario_no_region [])) = [[]]"
proof -
  have parsed: "flag_Parse scenario_no_region CommandLine [] = Inr (\<lambda>name. None)"
    by (simp add: scenario_no_region_def example_parse_nothing)
  have loaded: "fst (loadConfig scenario_no_region (configPath (\<lambda>name. None))) =
      Inr config_without_region"
    by (simp add: scenario_no_region_def configPath_default example_loadConfig)
  have fields: "SecretID (TencentCloud config_without_region) \<noteq> [] \<and>
      SecretKey (TencentCloud config_without_region) \<noteq> [] \<and>
      Paths (PurgeConfig config_without_region) \<noteq> [] \<and>
      FlushType (PurgeConfig config_without_region) \<noteq> [] \<and>
      Region (TencentCloud config_without_region) = []"
    by (simp add: config_without_region_def example_config_def)
  from C9_region_not_validated
      [where c = config_without_region and env = scenario_no_region and args = "[]"
        and actual = "\<lambda>name. None"] parsed loaded fields
  show ?thesis by simp
qed

text \<open>
  Claim C10. \<^verbatim>\<open>validateConfig\<close> looks only at whether the list of paths is empty:
  its result is the same for any two non-empty lists, so with the other three fields
  present a non-empty list passes even if every entry is the empty string; and the
  request carries the entries as they are, in the built request and in the one request
  the run sends.
\<close>

theorem C10_paths_contents_not_validated:
  "(ps \<noteq> [] \<and> ps' \<noteq> [] \<longrightarrow>
      validateConfig (c\<lparr>PurgeConfig := (PurgeConfig c)\<lparr>Paths := ps\<rparr>\<rparr>) =
      validateConfig (c\<lparr>PurgeConfig := (PurgeConfig c)\<lparr>Paths := ps'\<rparr>\<rparr>))
   \<and> (SecretID (TencentCloud c) \<noteq> [] \<and> SecretKey (TencentCloud c) \<noteq> [] \<and>
      FlushType (PurgeConfig c) \<noteq> [] \<and> Paths (PurgeConfig c) \<noteq> [] \<and>
      (\<forall>p \<in> set (Paths (PurgeConfig c)). p = []) \<longrightarrow>
      validateConfig c = None \<and>
      req_Paths (buildRequest c) = replicate (length (Paths (PurgeConfig c))) (Some []))
   \<and> req_Paths (buildRequest c) = map Some (Paths (PurgeConfig c))
   \<and> (flag_Parse env CommandLine args = Inr actual \<and>
      fst (loadConfig env (configPath actual)) = Inr c \<and> validateConfig c = None \<and>
      cdn_NewClient env (NewCredential (SecretID (TencentCloud c)) (SecretKey (TencentCloud c)))
        (Region (TencentCloud c)) clientProfile = (client, None) \<longrightarrow>
      (\<exists>request. network_calls (calls (main env args)) = [Call_PurgePathCache client request] \<and>
         req_Paths request = map Some (Paths (PurgeConfig c))))"
proof (intro conjI impI)
  show "validateConfig (c\<lparr>PurgeConfig := (PurgeConfig c)\<lparr>Paths := ps\<rparr>\<rparr>) =
      validateConfig (c\<lparr>PurgeConfig := (PurgeConfig c)\<lparr>Paths := ps'\<rparr>\<rparr>)"
    if "ps \<noteq> [] \<and> ps' \<noteq> []"
    using that by (simp add: validateConfig_def)
  show p: "req_Paths (buildRequest c) = map Some (Paths (PurgeConfig c))"
    by (simp add: buildRequest_fields)
  {
    assume h: "SecretID (TencentCloud c) \<noteq> [] \<and> SecretKey (TencentCloud c) \<noteq> [] \<and>
      FlushType (PurgeConfig c) \<noteq> [] \<and> Paths (PurgeConfig c) \<noteq> [] \<and>
      (\<forall>p \<in> set (Paths (PurgeConfig c)). p = [])"
    then show "validateConfig c = None"
      by (simp add: validateConfig_def)
    from h have "Paths (PurgeConfig c) = replicate (length (Paths (PurgeConfig c))) []"
      by (simp add: replicate_length_same)
    then have "map Some (Paths (PurgeConfig c)) =
        map Some (replicate (length (Paths (PurgeConfig c))) [])"
      by simp
    then show "req_Paths (buildRequest c) =
        replicate (length (Paths (PurgeConfig c))) (Some [])"
      by (simp add: p)
  }
  {
    assume h: "flag_Parse env CommandLine args = Inr actual \<and>
      fst (loadConfig env (configPath actual)) = Inr c \<and> validateConfig c = None \<and>
      cdn_NewClient env (NewCredential (SecretID (TencentCloud c)) (SecretKey (TencentCloud c)))
        (Region (TencentCloud c)) clientProfile = (client, None)"
    then have m: "main env args = purge env c (snd (loadConfig env (configPath actual)))"
      using main_purge by blast
    obtain response err where pc:
      "client_PurgePathCache env client (buildRequest c) = (response, err)"
      by (cases "client_PurgePathCache env client (buildRequest c)")
    from h pc have "network_calls (calls (main env args)) =
        [Call_PurgePathCache client (buildRequest c)]"
      using loadConfig_no_network [of env "configPath actual"]
      by (simp add: m purge_sent network_calls_def)
    with p show "\<exists>request.
        network_calls (calls (main env args)) = [Call_PurgePathCache client request] \<and>
        req_Paths request = map Some (Paths (PurgeConfig c))"
      by blast
  }
qed

theorem C10_witness:
  "validateConfig config_empty_paths = validateConfig example_config
   \<and> validateConfig config_empty_paths = None
   \<and> req_Paths (buildRequest config_empty_paths) = [Some [], Some []]
   \<and> (\<exists>client request.
        network_calls (calls (main scenario_empty_paths [])) =
          [Call_PurgePathCache client request] \<and>
        req_Paths request = [Some [], Some []])"
proof -
  have parsed: "flag_Parse scenario_empty_paths CommandLine [] = Inr (\<lambda>name. None)"
    by (simp add: scenario_empty_paths_def example_parse_nothing)
  have loaded: "fst (loadConfig scenario_empty_paths (configPath (\<lambda>name. None))) =
      Inr config_empty_paths"
    by (simp add: scenario_empty_paths_def configPath_default example_loadConfig)
  have fields: "SecretID (TencentCloud config_empty_paths) \<noteq> [] \<and>
      SecretKey (TencentCloud config_empty_paths) \<noteq> [] \<and>
      FlushType (PurgeConfig config_empty_paths) \<noteq> [] \<and>
      Paths (PurgeConfig config_empty_paths) \<noteq> [] \<and>
      (\<forall>p \<in> set (Paths (PurgeConfig config_empty_paths)). p = [])"
    by (simp add: config_empty_paths_def example_config_def)
  have paths: "Paths (PurgeConfig config_empty_paths) = [[], []]"
    by (simp add: config_empty_paths_def)
  have same: "validateConfig config_empty_paths = validateConfig example_config"
    using C10_paths_contents_not_validated
      [where c = example_config and ps = "[[], []]" and ps' = "[''http://example.com/a.js'']",
        THEN conjunct1]
    by (simp add: config_empty_paths_def example_config_def)
  have built: "cdn_NewClient scenario_empty_paths
      (NewCredential (SecretID (TencentCloud config_empty_paths))
         (SecretKey (TencentCloud config_empty_paths)))
      (Region (TencentCloud config_empty_paths)) clientProfile =
      ((NewCredential (SecretID (TencentCloud config_empty_paths))
         (SecretKey (TencentCloud config_empty_paths)),
        Region (TencentCloud config_empty_paths), clientProfile), None)"
    by (simp add: scenario_empty_paths_def example_NewClient)
  from C10_paths_contents_not_validated
      [where c = config_empty_paths and env = scenario_empty_paths and args = "[]"
        and actual = "\<lambda>name. None"
        and client = "(NewCredential (SecretID (TencentCloud config_empty_paths))
         (SecretKey (TencentCloud config_empty_paths)),
        Region (TencentCloud config_empty_paths), clientProfile)"
        and ps = "[[], []]" and ps' = "[[], []]"]
    parsed loaded fields built same
  show ?thesis by (auto simp: paths)
qed

end
